theory Spec2Isabelle
  imports Main "HOL-Library.Word"
begin

unbundle bit_operations_syntax

section \<open>The MAX77686 / MAX77802 / MAX77620 / MAX77714 RTC driver\<close>

text \<open>
  A shallow embedding of \<^verbatim>\<open>drivers/rtc/rtc-max77686.c\<close>. Every C function of the
  driver that a property below talks about is one HOL definition of the same name,
  written in the order of the C statements. What the driver calls but does not define
  (the regmap bus, the mutex, \<^verbatim>\<open>usleep_range\<close>, \<^verbatim>\<open>ffs\<close>, the register numbers of
  \<^verbatim>\<open>linux/mfd/max77686-private.h\<close>) is the driver's environment; it is introduced
  where it is first needed and its modelling is described there. Log output
  (\<^verbatim>\<open>dev_err\<close>, \<^verbatim>\<open>dev_warn\<close>, \<^verbatim>\<open>dev_dbg\<close>) has no effect on the device or on a return
  value and is left out.
\<close>

subsection \<open>Machine types and constants\<close>

type_synonym u8 = "8 word"

text \<open>\<^verbatim>\<open>unsigned int\<close>: a regmap register number, mask or value.\<close>
type_synonym uint32 = "32 word"

text \<open>\<^verbatim>\<open>BIT(n)\<close> of \<^verbatim>\<open>linux/bits.h\<close>: the word with only bit \<open>n\<close> set.\<close>
definition BIT :: "nat \<Rightarrow> 'a::len word" where
  "BIT n = push_bit n 1"

definition RTC_UDR_SHIFT :: nat where "RTC_UDR_SHIFT = 0"
definition RTC_RBUDR_SHIFT :: nat where "RTC_RBUDR_SHIFT = 4"
definition ALARM_ENABLE_SHIFT :: nat where "ALARM_ENABLE_SHIFT = 7"
definition ALARM_ENABLE_MASK :: "'a::len word" where
  "ALARM_ENABLE_MASK = BIT ALARM_ENABLE_SHIFT"

definition REG_RTC_NONE :: uint32 where "REG_RTC_NONE = 0xdeadbeef"
definition MAX77686_INVALID_REG :: int where "MAX77686_INVALID_REG = - 1"
definition MAX77686_INVALID_I2C_ADDR :: int where "MAX77686_INVALID_I2C_ADDR = - 1"
definition MAX77686_I2C_ADDR_RTC :: int where "MAX77686_I2C_ADDR_RTC = 0x0C div 2"
definition MAX77620_I2C_ADDR_RTC :: int where "MAX77620_I2C_ADDR_RTC = 0x68"
definition MAX77714_I2C_ADDR_RTC :: int where "MAX77714_I2C_ADDR_RTC = 0x48"
definition MAX77802_ALARM_ENABLE_VALUE :: uint32 where "MAX77802_ALARM_ENABLE_VALUE = 0x77"

text \<open>\<^verbatim>\<open>EINVAL\<close> of \<^verbatim>\<open>errno-base.h\<close>.\<close>
definition EINVAL :: int where "EINVAL = 22"

text \<open>The anonymous enum that indexes the seven data bytes of a time or an alarm.\<close>
definition RTC_SEC :: nat where "RTC_SEC = 0"
definition RTC_MIN :: nat where "RTC_MIN = 1"
definition RTC_HOUR :: nat where "RTC_HOUR = 2"
definition RTC_WEEKDAY :: nat where "RTC_WEEKDAY = 3"
definition RTC_MONTH :: nat where "RTC_MONTH = 4"
definition RTC_YEAR :: nat where "RTC_YEAR = 5"
definition RTC_MONTHDAY :: nat where "RTC_MONTHDAY = 6"
definition RTC_NR_TIME :: nat where "RTC_NR_TIME = 7"

datatype MAX77686_RTC_OP = MAX77686_RTC_WRITE | MAX77686_RTC_READ

subsection \<open>Register offsets and the two offset-to-address maps\<close>

text \<open>\<^verbatim>\<open>enum max77686_rtc_reg_offset\<close>; \<^verbatim>\<open>REG_RTC_END\<close> only sizes the arrays.\<close>
datatype max77686_rtc_reg_offset =
    REG_RTC_CONTROLM | REG_RTC_CONTROL | REG_RTC_UPDATE0 | REG_WTSR_SMPL_CNTL
  | REG_RTC_SEC | REG_RTC_MIN | REG_RTC_HOUR | REG_RTC_WEEKDAY
  | REG_RTC_MONTH | REG_RTC_YEAR | REG_RTC_MONTHDAY
  | REG_ALARM1_SEC | REG_ALARM1_MIN | REG_ALARM1_HOUR | REG_ALARM1_WEEKDAY
  | REG_ALARM1_MONTH | REG_ALARM1_YEAR | REG_ALARM1_DATE
  | REG_ALARM2_SEC | REG_ALARM2_MIN | REG_ALARM2_HOUR | REG_ALARM2_WEEKDAY
  | REG_ALARM2_MONTH | REG_ALARM2_YEAR | REG_ALARM2_DATE
  | REG_RTC_AE1

text \<open>
  The register numbers themselves are enumerators of \<^verbatim>\<open>linux/mfd/max77686-private.h\<close>,
  which is not part of the sources at hand. Their names are kept as two datatypes and
  their values are a parameter of the model: a \<open>private_h\<close> gives every name the address
  the header gives it.
\<close>
datatype max77686_rtc_reg =
    MAX77686_RTC_CONTROLM | MAX77686_RTC_CONTROL | MAX77686_RTC_UPDATE0
  | MAX77686_WTSR_SMPL_CNTL
  | MAX77686_RTC_SEC | MAX77686_RTC_MIN | MAX77686_RTC_HOUR | MAX77686_RTC_WEEKDAY
  | MAX77686_RTC_MONTH | MAX77686_RTC_YEAR | MAX77686_RTC_MONTHDAY
  | MAX77686_ALARM1_SEC | MAX77686_ALARM1_MIN | MAX77686_ALARM1_HOUR
  | MAX77686_ALARM1_WEEKDAY | MAX77686_ALARM1_MONTH | MAX77686_ALARM1_YEAR
  | MAX77686_ALARM1_DATE
  | MAX77686_ALARM2_SEC | MAX77686_ALARM2_MIN | MAX77686_ALARM2_HOUR
  | MAX77686_ALARM2_WEEKDAY | MAX77686_ALARM2_MONTH | MAX77686_ALARM2_YEAR
  | MAX77686_ALARM2_DATE

datatype max77802_rtc_reg =
    MAX77802_RTC_CONTROLM | MAX77802_RTC_CONTROL | MAX77802_RTC_UPDATE0
  | MAX77802_WTSR_SMPL_CNTL
  | MAX77802_RTC_SEC | MAX77802_RTC_MIN | MAX77802_RTC_HOUR | MAX77802_RTC_WEEKDAY
  | MAX77802_RTC_MONTH | MAX77802_RTC_YEAR | MAX77802_RTC_MONTHDAY
  | MAX77802_ALARM1_SEC | MAX77802_ALARM1_MIN | MAX77802_ALARM1_HOUR
  | MAX77802_ALARM1_WEEKDAY | MAX77802_ALARM1_MONTH | MAX77802_ALARM1_YEAR
  | MAX77802_ALARM1_DATE
  | MAX77802_ALARM2_SEC | MAX77802_ALARM2_MIN | MAX77802_ALARM2_HOUR
  | MAX77802_ALARM2_WEEKDAY | MAX77802_ALARM2_MONTH | MAX77802_ALARM2_YEAR
  | MAX77802_ALARM2_DATE
  | MAX77802_RTC_AE1

record private_h =
  max77686_reg :: "max77686_rtc_reg \<Rightarrow> uint32"
  max77802_reg :: "max77802_rtc_reg \<Rightarrow> uint32"
  MAX77686_REG_STATUS2 :: int

text \<open>\<^verbatim>\<open>max77686_map[REG_RTC_END]\<close>, one case per designated initialiser.\<close>
fun max77686_map :: "private_h \<Rightarrow> max77686_rtc_reg_offset \<Rightarrow> uint32" where
  "max77686_map h REG_RTC_CONTROLM = max77686_reg h MAX77686_RTC_CONTROLM"
| "max77686_map h REG_RTC_CONTROL = max77686_reg h MAX77686_RTC_CONTROL"
| "max77686_map h REG_RTC_UPDATE0 = max77686_reg h MAX77686_RTC_UPDATE0"
| "max77686_map h REG_WTSR_SMPL_CNTL = max77686_reg h MAX77686_WTSR_SMPL_CNTL"
| "max77686_map h REG_RTC_SEC = max77686_reg h MAX77686_RTC_SEC"
| "max77686_map h REG_RTC_MIN = max77686_reg h MAX77686_RTC_MIN"
| "max77686_map h REG_RTC_HOUR = max77686_reg h MAX77686_RTC_HOUR"
| "max77686_map h REG_RTC_WEEKDAY = max77686_reg h MAX77686_RTC_WEEKDAY"
| "max77686_map h REG_RTC_MONTH = max77686_reg h MAX77686_RTC_MONTH"
| "max77686_map h REG_RTC_YEAR = max77686_reg h MAX77686_RTC_YEAR"
| "max77686_map h REG_RTC_MONTHDAY = max77686_reg h MAX77686_RTC_MONTHDAY"
| "max77686_map h REG_ALARM1_SEC = max77686_reg h MAX77686_ALARM1_SEC"
| "max77686_map h REG_ALARM1_MIN = max77686_reg h MAX77686_ALARM1_MIN"
| "max77686_map h REG_ALARM1_HOUR = max77686_reg h MAX77686_ALARM1_HOUR"
| "max77686_map h REG_ALARM1_WEEKDAY = max77686_reg h MAX77686_ALARM1_WEEKDAY"
| "max77686_map h REG_ALARM1_MONTH = max77686_reg h MAX77686_ALARM1_MONTH"
| "max77686_map h REG_ALARM1_YEAR = max77686_reg h MAX77686_ALARM1_YEAR"
| "max77686_map h REG_ALARM1_DATE = max77686_reg h MAX77686_ALARM1_DATE"
| "max77686_map h REG_ALARM2_SEC = max77686_reg h MAX77686_ALARM2_SEC"
| "max77686_map h REG_ALARM2_MIN = max77686_reg h MAX77686_ALARM2_MIN"
| "max77686_map h REG_ALARM2_HOUR = max77686_reg h MAX77686_ALARM2_HOUR"
| "max77686_map h REG_ALARM2_WEEKDAY = max77686_reg h MAX77686_ALARM2_WEEKDAY"
| "max77686_map h REG_ALARM2_MONTH = max77686_reg h MAX77686_ALARM2_MONTH"
| "max77686_map h REG_ALARM2_YEAR = max77686_reg h MAX77686_ALARM2_YEAR"
| "max77686_map h REG_ALARM2_DATE = max77686_reg h MAX77686_ALARM2_DATE"
| "max77686_map h REG_RTC_AE1 = REG_RTC_NONE"

text \<open>\<^verbatim>\<open>max77802_map[REG_RTC_END]\<close>.\<close>
fun max77802_map :: "private_h \<Rightarrow> max77686_rtc_reg_offset \<Rightarrow> uint32" where
  "max77802_map h REG_RTC_CONTROLM = max77802_reg h MAX77802_RTC_CONTROLM"
| "max77802_map h REG_RTC_CONTROL = max77802_reg h MAX77802_RTC_CONTROL"
| "max77802_map h REG_RTC_UPDATE0 = max77802_reg h MAX77802_RTC_UPDATE0"
| "max77802_map h REG_WTSR_SMPL_CNTL = max77802_reg h MAX77802_WTSR_SMPL_CNTL"
| "max77802_map h REG_RTC_SEC = max77802_reg h MAX77802_RTC_SEC"
| "max77802_map h REG_RTC_MIN = max77802_reg h MAX77802_RTC_MIN"
| "max77802_map h REG_RTC_HOUR = max77802_reg h MAX77802_RTC_HOUR"
| "max77802_map h REG_RTC_WEEKDAY = max77802_reg h MAX77802_RTC_WEEKDAY"
| "max77802_map h REG_RTC_MONTH = max77802_reg h MAX77802_RTC_MONTH"
| "max77802_map h REG_RTC_YEAR = max77802_reg h MAX77802_RTC_YEAR"
| "max77802_map h REG_RTC_MONTHDAY = max77802_reg h MAX77802_RTC_MONTHDAY"
| "max77802_map h REG_ALARM1_SEC = max77802_reg h MAX77802_ALARM1_SEC"
| "max77802_map h REG_ALARM1_MIN = max77802_reg h MAX77802_ALARM1_MIN"
| "max77802_map h REG_ALARM1_HOUR = max77802_reg h MAX77802_ALARM1_HOUR"
| "max77802_map h REG_ALARM1_WEEKDAY = max77802_reg h MAX77802_ALARM1_WEEKDAY"
| "max77802_map h REG_ALARM1_MONTH = max77802_reg h MAX77802_ALARM1_MONTH"
| "max77802_map h REG_ALARM1_YEAR = max77802_reg h MAX77802_ALARM1_YEAR"
| "max77802_map h REG_ALARM1_DATE = max77802_reg h MAX77802_ALARM1_DATE"
| "max77802_map h REG_ALARM2_SEC = max77802_reg h MAX77802_ALARM2_SEC"
| "max77802_map h REG_ALARM2_MIN = max77802_reg h MAX77802_ALARM2_MIN"
| "max77802_map h REG_ALARM2_HOUR = max77802_reg h MAX77802_ALARM2_HOUR"
| "max77802_map h REG_ALARM2_WEEKDAY = max77802_reg h MAX77802_ALARM2_WEEKDAY"
| "max77802_map h REG_ALARM2_MONTH = max77802_reg h MAX77802_ALARM2_MONTH"
| "max77802_map h REG_ALARM2_YEAR = max77802_reg h MAX77802_ALARM2_YEAR"
| "max77802_map h REG_ALARM2_DATE = max77802_reg h MAX77802_ALARM2_DATE"
| "max77802_map h REG_RTC_AE1 = max77802_reg h MAX77802_RTC_AE1"

text \<open>
  The index range of both arrays: the offsets in the order of the enum, \<^verbatim>\<open>REG_RTC_END\<close>
  of them.
\<close>
definition REG_RTC_END :: nat where "REG_RTC_END = 26"

definition rtc_reg_offsets :: "max77686_rtc_reg_offset list" where
  "rtc_reg_offsets =
    [REG_RTC_CONTROLM, REG_RTC_CONTROL, REG_RTC_UPDATE0, REG_WTSR_SMPL_CNTL,
     REG_RTC_SEC, REG_RTC_MIN, REG_RTC_HOUR, REG_RTC_WEEKDAY,
     REG_RTC_MONTH, REG_RTC_YEAR, REG_RTC_MONTHDAY,
     REG_ALARM1_SEC, REG_ALARM1_MIN, REG_ALARM1_HOUR, REG_ALARM1_WEEKDAY,
     REG_ALARM1_MONTH, REG_ALARM1_YEAR, REG_ALARM1_DATE,
     REG_ALARM2_SEC, REG_ALARM2_MIN, REG_ALARM2_HOUR, REG_ALARM2_WEEKDAY,
     REG_ALARM2_MONTH, REG_ALARM2_YEAR, REG_ALARM2_DATE,
     REG_RTC_AE1]"

subsection \<open>Model-specific configuration\<close>

text \<open>
  \<^verbatim>\<open>struct max77686_rtc_driver_data\<close>. The fields \<^verbatim>\<open>mask\<close> and \<^verbatim>\<open>map\<close> are called
  \<open>reg_mask\<close> and \<open>reg_map\<close> here. \<^verbatim>\<open>delay\<close> is an \<^verbatim>\<open>unsigned long\<close> number of
  microseconds; the driver only doubles it, and the doubled values of the four tables
  below (32000 and 400) fit every width of \<^verbatim>\<open>long\<close>, so it is a natural number.
  The two pointers \<^verbatim>\<open>rtc_irq_chip\<close> and \<^verbatim>\<open>regmap_config\<close> are read by the probe code
  only and are not kept.
\<close>
record max77686_rtc_driver_data =
  delay :: nat
  reg_mask :: u8
  reg_map :: "max77686_rtc_reg_offset \<Rightarrow> uint32"
  alarm_enable_reg :: bool
  rtc_i2c_addr :: int
  rtc_irq_from_platform :: bool
  alarm_pending_status_reg :: int

definition max77686_drv_data :: "private_h \<Rightarrow> max77686_rtc_driver_data" where
  "max77686_drv_data h =
    \<lparr> delay = 16000, reg_mask = 0x7f, reg_map = max77686_map h,
      alarm_enable_reg = False, rtc_i2c_addr = MAX77686_I2C_ADDR_RTC,
      rtc_irq_from_platform = False,
      alarm_pending_status_reg = MAX77686_REG_STATUS2 h \<rparr>"

definition max77714_drv_data :: "private_h \<Rightarrow> max77686_rtc_driver_data" where
  "max77714_drv_data h =
    \<lparr> delay = 16000, reg_mask = 0x7f, reg_map = max77686_map h,
      alarm_enable_reg = False, rtc_i2c_addr = MAX77714_I2C_ADDR_RTC,
      rtc_irq_from_platform = False,
      alarm_pending_status_reg = MAX77686_INVALID_REG \<rparr>"

definition max77620_drv_data :: "private_h \<Rightarrow> max77686_rtc_driver_data" where
  "max77620_drv_data h =
    \<lparr> delay = 16000, reg_mask = 0x7f, reg_map = max77686_map h,
      alarm_enable_reg = False, rtc_i2c_addr = MAX77620_I2C_ADDR_RTC,
      rtc_irq_from_platform = True,
      alarm_pending_status_reg = MAX77686_INVALID_REG \<rparr>"

definition max77802_drv_data :: "private_h \<Rightarrow> max77686_rtc_driver_data" where
  "max77802_drv_data h =
    \<lparr> delay = 200, reg_mask = 0xff, reg_map = max77802_map h,
      alarm_enable_reg = True, rtc_i2c_addr = MAX77686_INVALID_I2C_ADDR,
      rtc_irq_from_platform = False,
      alarm_pending_status_reg = MAX77686_REG_STATUS2 h \<rparr>"

text \<open>
  \<^verbatim>\<open>struct max77686_rtc_info\<close>, as far as the RTC operations read it: the two regmap
  pointers (numbers of register files in the store below; the probe code makes them the
  same pointer on the MAX77802) and the configuration. The mutex \<^verbatim>\<open>lock\<close> is
  mutable and lives in the state.
\<close>
type_synonym regmap_ptr = nat

record max77686_rtc_info =
  regmap :: regmap_ptr
  rtc_regmap :: regmap_ptr
  drv_data :: max77686_rtc_driver_data

subsection \<open>Time in the kernel and on the chip\<close>

text \<open>
  \<^verbatim>\<open>struct rtc_time\<close> and \<^verbatim>\<open>struct rtc_wkalrm\<close> of \<^verbatim>\<open>linux/rtc.h\<close>. The fields of
  \<^verbatim>\<open>rtc_time\<close> are C \<^verbatim>\<open>int\<close>s and are integers here; storing one into a \<^verbatim>\<open>u8\<close> is
  \<open>word_of_int\<close>, which keeps the low eight bits as the C conversion does.
\<close>
record rtc_time =
  tm_sec :: int
  tm_min :: int
  tm_hour :: int
  tm_mday :: int
  tm_mon :: int
  tm_year :: int
  tm_wday :: int
  tm_yday :: int
  tm_isdst :: int

record rtc_wkalrm =
  enabled :: u8
  pending :: u8
  time :: rtc_time

text \<open>
  Modelled from the spec: \<^verbatim>\<open>ffs()\<close> is a kernel bit operation outside the sources at
  hand, and the spec only calls the driver "bit-field encode/decode"; the definition
  follows the operation's contract: the position of the least significant set bit,
  counted from 1, and 0 when no bit is set.
\<close>
definition ffs :: "u8 \<Rightarrow> int" where
  "ffs w = (case find (bit w) [0..<8] of None \<Rightarrow> 0 | Some n \<Rightarrow> int n + 1)"

text \<open>
  \<^verbatim>\<open>max77686_rtc_data_to_tm\<close>: \<open>data\<close> is the array \<^verbatim>\<open>u8 data[RTC_NR_TIME]\<close>, \<open>tm\<close> the
  structure the C function writes into, returned updated.
\<close>
definition max77686_rtc_data_to_tm ::
  "u8 list \<Rightarrow> rtc_time \<Rightarrow> max77686_rtc_info \<Rightarrow> rtc_time" where
  "max77686_rtc_data_to_tm data tm info =
    (let mask = reg_mask (drv_data info);
         tm = tm\<lparr> tm_sec := uint (data ! RTC_SEC AND mask) \<rparr>;
         tm = tm\<lparr> tm_min := uint (data ! RTC_MIN AND mask) \<rparr>;
         tm = tm\<lparr> tm_hour := uint (data ! RTC_HOUR AND 0x1f) \<rparr>;
         tm = tm\<lparr> tm_wday := ffs (data ! RTC_WEEKDAY AND mask) - 1 \<rparr>;
         tm = tm\<lparr> tm_mday := uint (data ! RTC_MONTHDAY AND 0x1f) \<rparr>;
         tm = tm\<lparr> tm_mon := uint (data ! RTC_MONTH AND 0x0f) - 1 \<rparr>;
         tm = tm\<lparr> tm_year := uint (data ! RTC_YEAR AND mask) \<rparr>;
         tm = tm\<lparr> tm_yday := 0 \<rparr>;
         tm = tm\<lparr> tm_isdst := 0 \<rparr>
     in if \<not> alarm_enable_reg (drv_data info)
        then tm\<lparr> tm_year := tm_year tm + 100 \<rparr>
        else tm)"

text \<open>
  \<^verbatim>\<open>max77686_rtc_tm_to_data\<close> returns the C return value and the seven bytes it has
  stored (it stores all seven on both return paths). \<^verbatim>\<open>1 << tm->tm_wday\<close> is a shift
  of an \<^verbatim>\<open>int\<close>: C defines it for \<open>0 \<le> tm_wday < 31\<close> only, and there it is
  \<open>push_bit (nat (tm_wday tm)) 1\<close>.
\<close>
definition max77686_rtc_tm_to_data ::
  "rtc_time \<Rightarrow> max77686_rtc_info \<Rightarrow> int \<times> u8 list" where
  "max77686_rtc_tm_to_data tm info =
    (let data = replicate RTC_NR_TIME (0 :: u8);
         data = data[RTC_SEC := word_of_int (tm_sec tm)];
         data = data[RTC_MIN := word_of_int (tm_min tm)];
         data = data[RTC_HOUR := word_of_int (tm_hour tm)];
         data = data[RTC_WEEKDAY := word_of_int (push_bit (nat (tm_wday tm)) 1)];
         data = data[RTC_MONTHDAY := word_of_int (tm_mday tm)];
         data = data[RTC_MONTH := word_of_int (tm_mon tm + 1)]
     in if alarm_enable_reg (drv_data info)
        then (0, data[RTC_YEAR := word_of_int (tm_year tm)])
        else
          let data = data[RTC_YEAR :=
                word_of_int (if tm_year tm > 100 then tm_year tm - 100 else 0)]
          in if tm_year tm < 100 then (- EINVAL, data) else (0, data))"

subsection \<open>The driver's environment: regmap, mutex and sleep\<close>

text \<open>
  The driver reaches the chip through the kernel's regmap interface only. The model of
  that interface is a store of register files, one per regmap pointer, holding the
  eight-bit registers the driver's regmap configuration declares
  (\<^verbatim>\<open>reg_bits = 8, val_bits = 8\<close>). Every regmap call is one bus transaction. It
  either succeeds and returns 0, or fails and returns a negative errno; which of the two
  is decided outside the driver, so the world carries a \<open>script\<close>: the errno of each
  coming transaction, 0 for success, and success once the script is used up. A
  transaction that fails delivers nothing and changes no register.

  Everything the driver does to its environment is appended to \<open>trace\<close>: taking and
  releasing \<^verbatim>\<open>info->lock\<close>, each bus transaction with its return value, and each call
  of \<^verbatim>\<open>usleep_range\<close> with its two bounds in microseconds.
\<close>
datatype xfer =
    Update_bits uint32 uint32 uint32
  | Bulk_read uint32 nat "u8 list"
  | Bulk_write uint32 "u8 list"
  | Reg_read uint32 uint32
  | Reg_write uint32 uint32

datatype event =
    Mutex_lock
  | Mutex_unlock
  | Bus regmap_ptr xfer int
  | Usleep_range nat nat

record world =
  regs :: "regmap_ptr \<Rightarrow> uint32 \<Rightarrow> u8"
  script :: "nat list"
  trace :: "event list"

definition bus_ret :: "world \<Rightarrow> int" where
  "bus_ret s = (case script s of [] \<Rightarrow> 0 | e # _ \<Rightarrow> - int e)"

definition bus_done :: "regmap_ptr \<Rightarrow> xfer \<Rightarrow> world \<Rightarrow> world" where
  "bus_done rm x s =
    s\<lparr> script := tl (script s), trace := trace s @ [Bus rm x (bus_ret s)] \<rparr>"

definition reg_store :: "regmap_ptr \<Rightarrow> uint32 \<Rightarrow> u8 \<Rightarrow> world \<Rightarrow> world" where
  "reg_store rm r v s = s\<lparr> regs := (regs s)(rm := (regs s rm)(r := v)) \<rparr>"

text \<open>\<^verbatim>\<open>regmap_update_bits(map, reg, mask, val)\<close>: read, replace the masked bits, write.\<close>
definition regmap_update_bits ::
  "regmap_ptr \<Rightarrow> uint32 \<Rightarrow> uint32 \<Rightarrow> uint32 \<Rightarrow> world \<Rightarrow> int \<times> world" where
  "regmap_update_bits rm reg msk val s =
    (let ret = bus_ret s;
         old = regs s rm reg;
         s = bus_done rm (Update_bits reg msk val) s
     in if ret < 0 then (ret, s)
        else (ret, reg_store rm reg ((old AND NOT (ucast msk)) OR (ucast val AND ucast msk)) s))"

text \<open>\<^verbatim>\<open>regmap_bulk_read(map, reg, val, val_count)\<close>: \<open>count\<close> consecutive registers.\<close>
definition regmap_bulk_read ::
  "regmap_ptr \<Rightarrow> uint32 \<Rightarrow> nat \<Rightarrow> world \<Rightarrow> int \<times> u8 list \<times> world" where
  "regmap_bulk_read rm reg count s =
    (let ret = bus_ret s;
         data = (if ret < 0 then [] else map (\<lambda>i. regs s rm (reg + of_nat i)) [0..<count])
     in (ret, data, bus_done rm (Bulk_read reg count data) s))"

text \<open>\<^verbatim>\<open>regmap_bulk_write(map, reg, val, val_count)\<close> with \<open>val_count = length data\<close>.\<close>
definition regmap_bulk_write ::
  "regmap_ptr \<Rightarrow> uint32 \<Rightarrow> u8 list \<Rightarrow> world \<Rightarrow> int \<times> world" where
  "regmap_bulk_write rm reg data s =
    (let ret = bus_ret s;
         s = bus_done rm (Bulk_write reg data) s
     in if ret < 0 then (ret, s)
        else (ret, fold (\<lambda>i. reg_store rm (reg + of_nat i) (data ! i)) [0..<length data] s))"

text \<open>\<^verbatim>\<open>regmap_read(map, reg, &val)\<close>.\<close>
definition regmap_read ::
  "regmap_ptr \<Rightarrow> uint32 \<Rightarrow> world \<Rightarrow> int \<times> uint32 \<times> world" where
  "regmap_read rm reg s =
    (let ret = bus_ret s;
         val = (if ret < 0 then 0 else ucast (regs s rm reg))
     in (ret, val, bus_done rm (Reg_read reg val) s))"

text \<open>\<^verbatim>\<open>regmap_write(map, reg, val)\<close>.\<close>
definition regmap_write ::
  "regmap_ptr \<Rightarrow> uint32 \<Rightarrow> uint32 \<Rightarrow> world \<Rightarrow> int \<times> world" where
  "regmap_write rm reg val s =
    (let ret = bus_ret s;
         s = bus_done rm (Reg_write reg val) s
     in if ret < 0 then (ret, s) else (ret, reg_store rm reg (ucast val) s))"

definition mutex_lock :: "world \<Rightarrow> world" where
  "mutex_lock s = s\<lparr> trace := trace s @ [Mutex_lock] \<rparr>"

definition mutex_unlock :: "world \<Rightarrow> world" where
  "mutex_unlock s = s\<lparr> trace := trace s @ [Mutex_unlock] \<rparr>"

definition usleep_range :: "nat \<Rightarrow> nat \<Rightarrow> world \<Rightarrow> world" where
  "usleep_range lo hi s = s\<lparr> trace := trace s @ [Usleep_range lo hi] \<rparr>"

subsection \<open>The RTC operations\<close>

text \<open>
  Each function returns the C return value first and the world last; a structure the C
  function fills in through a pointer is an argument and is returned in between. Every
  \<^verbatim>\<open>goto out\<close> is the branch that returns at once (after \<^verbatim>\<open>mutex_unlock\<close> where
  the label unlocks).
\<close>

definition max77686_rtc_update ::
  "max77686_rtc_info \<Rightarrow> MAX77686_RTC_OP \<Rightarrow> world \<Rightarrow> int \<times> world" where
  "max77686_rtc_update info op s =
    (let delay = delay (drv_data info);
         data = (if op = MAX77686_RTC_WRITE then push_bit RTC_UDR_SHIFT 1
                 else push_bit RTC_RBUDR_SHIFT 1);
         (ret, s) = regmap_update_bits (rtc_regmap info)
                      (reg_map (drv_data info) REG_RTC_UPDATE0) data data s
     in if ret < 0 then (ret, s)
        else (ret, usleep_range delay (delay * 2) s))"

definition max77686_rtc_read_time ::
  "max77686_rtc_info \<Rightarrow> rtc_time \<Rightarrow> world \<Rightarrow> int \<times> rtc_time \<times> world" where
  "max77686_rtc_read_time info tm s =
    (let s = mutex_lock s;
         (ret, s) = max77686_rtc_update info MAX77686_RTC_READ s
     in if ret < 0 then (ret, tm, mutex_unlock s)
        else
          let (ret, data, s) = regmap_bulk_read (rtc_regmap info)
                                 (reg_map (drv_data info) REG_RTC_SEC) RTC_NR_TIME s
          in if ret < 0 then (ret, tm, mutex_unlock s)
             else (ret, max77686_rtc_data_to_tm data tm info, mutex_unlock s))"

definition max77686_rtc_set_time ::
  "max77686_rtc_info \<Rightarrow> rtc_time \<Rightarrow> world \<Rightarrow> int \<times> world" where
  "max77686_rtc_set_time info tm s =
    (let (ret, data) = max77686_rtc_tm_to_data tm info
     in if ret < 0 then (ret, s)
        else
          let s = mutex_lock s;
              (ret, s) = regmap_bulk_write (rtc_regmap info)
                           (reg_map (drv_data info) REG_RTC_SEC) data s
          in if ret < 0 then (ret, mutex_unlock s)
             else
               let (ret, s) = max77686_rtc_update info MAX77686_RTC_WRITE s
               in (ret, mutex_unlock s))"

text \<open>
  The end of \<^verbatim>\<open>max77686_rtc_read_alarm\<close>, from \<^verbatim>\<open>alrm->pending = 0\<close> to the return:
  both branches of the alarm-enable test continue here with their \<open>ret\<close>.
\<close>
definition max77686_rtc_read_alarm_pending ::
  "max77686_rtc_info \<Rightarrow> int \<Rightarrow> rtc_wkalrm \<Rightarrow> world \<Rightarrow> int \<times> rtc_wkalrm \<times> world" where
  "max77686_rtc_read_alarm_pending info ret alrm s =
    (let alrm = alrm\<lparr> pending := 0 \<rparr>
     in if alarm_pending_status_reg (drv_data info) = MAX77686_INVALID_REG
        then (ret, alrm, mutex_unlock s)
        else
          let (ret, val, s) = regmap_read (regmap info)
                (word_of_int (alarm_pending_status_reg (drv_data info))) s
          in if ret < 0 then (ret, alrm, mutex_unlock s)
             else if val AND push_bit 4 1 \<noteq> 0
                  then (ret, alrm\<lparr> pending := 1 \<rparr>, mutex_unlock s)
                  else (ret, alrm, mutex_unlock s))"

definition max77686_rtc_read_alarm ::
  "max77686_rtc_info \<Rightarrow> rtc_wkalrm \<Rightarrow> world \<Rightarrow> int \<times> rtc_wkalrm \<times> world" where
  "max77686_rtc_read_alarm info alrm s =
    (let rmap = reg_map (drv_data info);
         s = mutex_lock s;
         (ret, s) = max77686_rtc_update info MAX77686_RTC_READ s
     in if ret < 0 then (ret, alrm, mutex_unlock s)
        else
          let (ret, data, s) = regmap_bulk_read (rtc_regmap info)
                                 (rmap REG_ALARM1_SEC) RTC_NR_TIME s
          in if ret < 0 then (ret, alrm, mutex_unlock s)
             else
               let alrm = alrm\<lparr> time := max77686_rtc_data_to_tm data (time alrm) info \<rparr>;
                   alrm = alrm\<lparr> enabled := 0 \<rparr>
               in if alarm_enable_reg (drv_data info)
                  then
                    if rmap REG_RTC_AE1 = REG_RTC_NONE
                    then (- EINVAL, alrm, mutex_unlock s)
                    else
                      let (ret, val, s) = regmap_read (rtc_regmap info) (rmap REG_RTC_AE1) s
                      in if ret < 0 then (ret, alrm, mutex_unlock s)
                         else max77686_rtc_read_alarm_pending info ret
                                (if val \<noteq> 0 then alrm\<lparr> enabled := 1 \<rparr> else alrm) s
                  else
                    max77686_rtc_read_alarm_pending info ret
                      (if list_ex (\<lambda>b. b AND ALARM_ENABLE_MASK \<noteq> 0) (take RTC_NR_TIME data)
                       then alrm\<lparr> enabled := 1 \<rparr> else alrm) s)"

text \<open>
  \<^verbatim>\<open>max77686_rtc_stop_alarm\<close> and \<^verbatim>\<open>max77686_rtc_start_alarm\<close> run with the lock
  held by their caller. Both decode the alarm into a local \<^verbatim>\<open>tm\<close> that is never read;
  the model leaves that dead store out. The statements after the alarm-enable test
  (the check of \<open>ret\<close> and the final update) are written once per branch.
\<close>
definition max77686_rtc_stop_alarm ::
  "max77686_rtc_info \<Rightarrow> world \<Rightarrow> int \<times> world" where
  "max77686_rtc_stop_alarm info s =
    (let rmap = reg_map (drv_data info);
         (ret, s) = max77686_rtc_update info MAX77686_RTC_READ s
     in if ret < 0 then (ret, s)
        else if alarm_enable_reg (drv_data info)
        then
          if rmap REG_RTC_AE1 = REG_RTC_NONE then (- EINVAL, s)
          else
            let (ret, s) = regmap_write (rtc_regmap info) (rmap REG_RTC_AE1) 0 s
            in if ret < 0 then (ret, s)
               else max77686_rtc_update info MAX77686_RTC_WRITE s
        else
          let (ret, data, s) = regmap_bulk_read (rtc_regmap info)
                                 (rmap REG_ALARM1_SEC) RTC_NR_TIME s
          in if ret < 0 then (ret, s)
             else
               let data = map (\<lambda>b. b AND NOT ALARM_ENABLE_MASK) data;
                   (ret, s) = regmap_bulk_write (rtc_regmap info)
                                (rmap REG_ALARM1_SEC) data s
               in if ret < 0 then (ret, s)
                  else max77686_rtc_update info MAX77686_RTC_WRITE s)"

definition max77686_rtc_start_alarm ::
  "max77686_rtc_info \<Rightarrow> world \<Rightarrow> int \<times> world" where
  "max77686_rtc_start_alarm info s =
    (let rmap = reg_map (drv_data info);
         (ret, s) = max77686_rtc_update info MAX77686_RTC_READ s
     in if ret < 0 then (ret, s)
        else if alarm_enable_reg (drv_data info)
        then
          let (ret, s) = regmap_write (rtc_regmap info) (rmap REG_RTC_AE1)
                           MAX77802_ALARM_ENABLE_VALUE s
          in if ret < 0 then (ret, s)
             else max77686_rtc_update info MAX77686_RTC_WRITE s
        else
          let (ret, data, s) = regmap_bulk_read (rtc_regmap info)
                                 (rmap REG_ALARM1_SEC) RTC_NR_TIME s
          in if ret < 0 then (ret, s)
             else
               let data = data[RTC_SEC := data ! RTC_SEC OR push_bit ALARM_ENABLE_SHIFT 1];
                   data = data[RTC_MIN := data ! RTC_MIN OR push_bit ALARM_ENABLE_SHIFT 1];
                   data = data[RTC_HOUR := data ! RTC_HOUR OR push_bit ALARM_ENABLE_SHIFT 1];
                   data = data[RTC_WEEKDAY := data ! RTC_WEEKDAY AND NOT ALARM_ENABLE_MASK];
                   data = (if data ! RTC_MONTH AND 0xf \<noteq> 0
                           then data[RTC_MONTH :=
                                  data ! RTC_MONTH OR push_bit ALARM_ENABLE_SHIFT 1]
                           else data);
                   data = (if data ! RTC_YEAR AND reg_mask (drv_data info) \<noteq> 0
                           then data[RTC_YEAR :=
                                  data ! RTC_YEAR OR push_bit ALARM_ENABLE_SHIFT 1]
                           else data);
                   data = (if data ! RTC_MONTHDAY AND 0x1f \<noteq> 0
                           then data[RTC_MONTHDAY :=
                                  data ! RTC_MONTHDAY OR push_bit ALARM_ENABLE_SHIFT 1]
                           else data);
                   (ret, s) = regmap_bulk_write (rtc_regmap info)
                                (rmap REG_ALARM1_SEC) data s
               in if ret < 0 then (ret, s)
                  else max77686_rtc_update info MAX77686_RTC_WRITE s)"

definition max77686_rtc_set_alarm ::
  "max77686_rtc_info \<Rightarrow> rtc_wkalrm \<Rightarrow> world \<Rightarrow> int \<times> world" where
  "max77686_rtc_set_alarm info alrm s =
    (let (ret, data) = max77686_rtc_tm_to_data (time alrm) info
     in if ret < 0 then (ret, s)
        else
          let s = mutex_lock s;
              (ret, s) = max77686_rtc_stop_alarm info s
          in if ret < 0 then (ret, mutex_unlock s)
             else
               let (ret, s) = regmap_bulk_write (rtc_regmap info)
                                (reg_map (drv_data info) REG_ALARM1_SEC) data s
               in if ret < 0 then (ret, mutex_unlock s)
                  else
                    let (ret, s) = max77686_rtc_update info MAX77686_RTC_WRITE s
                    in if ret < 0 then (ret, mutex_unlock s)
                       else if enabled alrm \<noteq> 0
                       then let (ret, s) = max77686_rtc_start_alarm info s
                            in (ret, mutex_unlock s)
                       else (ret, mutex_unlock s))"

text \<open>The C parameter \<^verbatim>\<open>enabled\<close> is \<open>enabled_arg\<close> here.\<close>
definition max77686_rtc_alarm_irq_enable ::
  "max77686_rtc_info \<Rightarrow> uint32 \<Rightarrow> world \<Rightarrow> int \<times> world" where
  "max77686_rtc_alarm_irq_enable info enabled_arg s =
    (let s = mutex_lock s;
         (ret, s) = (if enabled_arg \<noteq> 0 then max77686_rtc_start_alarm info s
                     else max77686_rtc_stop_alarm info s)
     in (ret, mutex_unlock s))"

text \<open>
  \<^verbatim>\<open>max77686_rtc_ops\<close>, the table of the five class operations the RTC core calls: a
  call names the member and carries its argument; what the member writes through its
  pointer argument is returned.
\<close>
datatype rtc_class_call =
    Read_time rtc_time
  | Set_time rtc_time
  | Read_alarm rtc_wkalrm
  | Set_alarm rtc_wkalrm
  | Alarm_irq_enable uint32

datatype rtc_class_out = Out_time rtc_time | Out_alarm rtc_wkalrm | Out_none

fun max77686_rtc_ops ::
  "max77686_rtc_info \<Rightarrow> rtc_class_call \<Rightarrow> world \<Rightarrow> int \<times> rtc_class_out \<times> world" where
  "max77686_rtc_ops info (Read_time tm) s =
    (let (ret, tm, s) = max77686_rtc_read_time info tm s in (ret, Out_time tm, s))"
| "max77686_rtc_ops info (Set_time tm) s =
    (let (ret, s) = max77686_rtc_set_time info tm s in (ret, Out_none, s))"
| "max77686_rtc_ops info (Read_alarm alrm) s =
    (let (ret, alrm, s) = max77686_rtc_read_alarm info alrm s in (ret, Out_alarm alrm, s))"
| "max77686_rtc_ops info (Set_alarm alrm) s =
    (let (ret, s) = max77686_rtc_set_alarm info alrm s in (ret, Out_none, s))"
| "max77686_rtc_ops info (Alarm_irq_enable enabled_arg) s =
    (let (ret, s) = max77686_rtc_alarm_irq_enable info enabled_arg s in (ret, Out_none, s))"

text \<open>
  Every class operation starts with \<^verbatim>\<open>info = dev_get_drvdata(dev)\<close>: the RTC core
  hands it the device, and the device holds the \<^verbatim>\<open>max77686_rtc_info\<close> that the probe
  code has stored there. An instance is that driver data together with the world behind
  it; a call of a class operation on an instance looks the driver data up, runs the
  member of \<^verbatim>\<open>max77686_rtc_ops\<close> on it and leaves the instance with the world the
  member returns. \<open>rtc_class_run\<close> is any sequence of such calls.
\<close>
record rtc_instance =
  driver_data :: max77686_rtc_info
  hw :: world

definition dev_get_drvdata :: "rtc_instance \<Rightarrow> max77686_rtc_info" where
  "dev_get_drvdata dev = driver_data dev"

definition rtc_class_op ::
  "rtc_instance \<Rightarrow> rtc_class_call \<Rightarrow> int \<times> rtc_class_out \<times> rtc_instance" where
  "rtc_class_op dev call =
    (let info = dev_get_drvdata dev;
         (ret, out, s) = max77686_rtc_ops info call (hw dev)
     in (ret, out, dev\<lparr> hw := s \<rparr>))"

fun rtc_class_run :: "rtc_instance \<Rightarrow> rtc_class_call list \<Rightarrow> rtc_instance" where
  "rtc_class_run dev [] = dev"
| "rtc_class_run dev (call # calls) =
    rtc_class_run (snd (snd (rtc_class_op dev call))) calls"

subsection \<open>Reading a trace\<close>

text \<open>What a call has appended to the trace: the events between two worlds.\<close>
definition emitted :: "world \<Rightarrow> world \<Rightarrow> event list" where
  "emitted s s' = drop (length (trace s)) (trace s')"

text \<open>
  \<open>mutex_run held evs\<close> replays the events against the mutex, starting with the mutex
  held or free. It fails (\<open>None\<close>) when the mutex is taken while held, released while
  free, or a bus transaction happens while it is free; otherwise it tells whether the
  mutex is held at the end.
\<close>
fun mutex_run :: "bool \<Rightarrow> event list \<Rightarrow> bool option" where
  "mutex_run held [] = Some held"
| "mutex_run held (Mutex_lock # es) = (if held then None else mutex_run True es)"
| "mutex_run held (Mutex_unlock # es) = (if held then mutex_run False es else None)"
| "mutex_run held (Bus rm x r # es) = (if held then mutex_run held es else None)"
| "mutex_run held (Usleep_range lo hi # es) = mutex_run held es"

text \<open>The return values of the failed bus transactions of a trace, in order.\<close>
fun bus_failures :: "event list \<Rightarrow> int list" where
  "bus_failures [] = []"
| "bus_failures (Bus rm x r # es) = (if r < 0 then r # bus_failures es else bus_failures es)"
| "bus_failures (e # es) = bus_failures es"

text \<open>
  \<open>fail_stop ret evs\<close>: the first failed bus transaction of \<open>evs\<close>, if there is one,
  is followed by the release of the mutex and nothing else, and \<open>ret\<close> is its return
  value.
\<close>
fun fail_stop :: "int \<Rightarrow> event list \<Rightarrow> bool" where
  "fail_stop ret [] = True"
| "fail_stop ret (Bus rm x r # es) =
    (if r < 0 then ret = r \<and> es = [Mutex_unlock] else fail_stop ret es)"
| "fail_stop ret (e # es) = fail_stop ret es"

text \<open>
  The two places where the driver returns \<^verbatim>\<open>-EINVAL\<close> of its own: the year check of
  \<^verbatim>\<open>max77686_rtc_tm_to_data\<close>, reached from \<^verbatim>\<open>set_time\<close> and \<^verbatim>\<open>set_alarm\<close>, and the
  check for a missing alarm-enable register in \<^verbatim>\<open>max77686_rtc_read_alarm\<close> and
  \<^verbatim>\<open>max77686_rtc_stop_alarm\<close>.
\<close>
definition year_guard :: "max77686_rtc_info \<Rightarrow> rtc_class_call \<Rightarrow> bool" where
  "year_guard info call =
    (\<not> alarm_enable_reg (drv_data info) \<and>
     (case call of
        Set_time tm \<Rightarrow> tm_year tm < 100
      | Set_alarm alrm \<Rightarrow> tm_year (time alrm) < 100
      | _ \<Rightarrow> False))"

definition ae1_missing :: "max77686_rtc_info \<Rightarrow> bool" where
  "ae1_missing info =
    (alarm_enable_reg (drv_data info) \<and> reg_map (drv_data info) REG_RTC_AE1 = REG_RTC_NONE)"

definition ae1_guard :: "max77686_rtc_info \<Rightarrow> rtc_class_call \<Rightarrow> bool" where
  "ae1_guard info call =
    (ae1_missing info \<and>
     (case call of
        Read_alarm alrm \<Rightarrow> True
      | Set_alarm alrm \<Rightarrow> True
      | Alarm_irq_enable enabled_arg \<Rightarrow> enabled_arg = 0
      | _ \<Rightarrow> False))"

text \<open>
  The shape of what runs under the lock. An event is \<open>quiet\<close> when it is a sleep or a
  bus transaction that succeeded. A critical section \<open>crit\<close> that returns \<open>ret\<close> is quiet throughout
  when \<open>ret\<close> is not negative; when it is negative, either the last event is the failed
  transaction that returned \<open>ret\<close> and all before it is quiet, or (where \<open>g\<close> allows
  it) all is quiet and \<open>ret\<close> is the driver's own \<^verbatim>\<open>-EINVAL\<close>.
\<close>
fun quiet :: "event \<Rightarrow> bool" where
  "quiet (Bus rm x r) = (0 \<le> r)"
| "quiet (Usleep_range lo hi) = True"
| "quiet e = False"

fun failed_with :: "int \<Rightarrow> event \<Rightarrow> bool" where
  "failed_with ret (Bus rm x r) = (r = ret \<and> r < 0)"
| "failed_with ret e = False"

definition crit :: "bool \<Rightarrow> int \<Rightarrow> event list \<Rightarrow> bool" where
  "crit g ret evs =
    (if ret < 0
     then (evs \<noteq> [] \<and> list_all quiet (butlast evs) \<and> failed_with ret (last evs)) \<or>
          (g \<and> ret = - EINVAL \<and> list_all quiet evs)
     else list_all quiet evs)"

definition runs :: "bool \<Rightarrow> world \<Rightarrow> int \<Rightarrow> world \<Rightarrow> bool" where
  "runs g s ret s' = (\<exists>evs. trace s' = trace s @ evs \<and> crit g ret evs)"

text \<open>
  A whole class operation: nothing at all and the \<^verbatim>\<open>-EINVAL\<close> of the year check, or
  one critical section between taking and releasing the mutex.
\<close>
definition class_trace :: "bool \<Rightarrow> bool \<Rightarrow> int \<Rightarrow> event list \<Rightarrow> bool" where
  "class_trace yg g ret evs =
    (case evs of
       [] \<Rightarrow> yg \<and> ret = - EINVAL
     | e # es \<Rightarrow> e = Mutex_lock \<and> es \<noteq> [] \<and> last es = Mutex_unlock \<and>
                crit g ret (butlast es))"

subsection \<open>The four device tables and sample inputs\<close>

definition models :: "private_h \<Rightarrow> max77686_rtc_driver_data list" where
  "models h =
    [max77686_drv_data h, max77802_drv_data h, max77620_drv_data h, max77714_drv_data h]"

text \<open>
  Sample register numbers, to run the model on concrete inputs: each chip's RTC block
  as one run of consecutive addresses in the order of the names.
\<close>
fun sample_max77686_reg :: "max77686_rtc_reg \<Rightarrow> uint32" where
  "sample_max77686_reg MAX77686_RTC_CONTROLM = 0x02"
| "sample_max77686_reg MAX77686_RTC_CONTROL = 0x03"
| "sample_max77686_reg MAX77686_RTC_UPDATE0 = 0x04"
| "sample_max77686_reg MAX77686_WTSR_SMPL_CNTL = 0x06"
| "sample_max77686_reg MAX77686_RTC_SEC = 0x07"
| "sample_max77686_reg MAX77686_RTC_MIN = 0x08"
| "sample_max77686_reg MAX77686_RTC_HOUR = 0x09"
| "sample_max77686_reg MAX77686_RTC_WEEKDAY = 0x0A"
| "sample_max77686_reg MAX77686_RTC_MONTH = 0x0B"
| "sample_max77686_reg MAX77686_RTC_YEAR = 0x0C"
| "sample_max77686_reg MAX77686_RTC_MONTHDAY = 0x0D"
| "sample_max77686_reg MAX77686_ALARM1_SEC = 0x0E"
| "sample_max77686_reg MAX77686_ALARM1_MIN = 0x0F"
| "sample_max77686_reg MAX77686_ALARM1_HOUR = 0x10"
| "sample_max77686_reg MAX77686_ALARM1_WEEKDAY = 0x11"
| "sample_max77686_reg MAX77686_ALARM1_MONTH = 0x12"
| "sample_max77686_reg MAX77686_ALARM1_YEAR = 0x13"
| "sample_max77686_reg MAX77686_ALARM1_DATE = 0x14"
| "sample_max77686_reg MAX77686_ALARM2_SEC = 0x15"
| "sample_max77686_reg MAX77686_ALARM2_MIN = 0x16"
| "sample_max77686_reg MAX77686_ALARM2_HOUR = 0x17"
| "sample_max77686_reg MAX77686_ALARM2_WEEKDAY = 0x18"
| "sample_max77686_reg MAX77686_ALARM2_MONTH = 0x19"
| "sample_max77686_reg MAX77686_ALARM2_YEAR = 0x1A"
| "sample_max77686_reg MAX77686_ALARM2_DATE = 0x1B"

fun sample_max77802_reg :: "max77802_rtc_reg \<Rightarrow> uint32" where
  "sample_max77802_reg MAX77802_RTC_CONTROLM = 0xC2"
| "sample_max77802_reg MAX77802_RTC_CONTROL = 0xC3"
| "sample_max77802_reg MAX77802_RTC_UPDATE0 = 0xC4"
| "sample_max77802_reg MAX77802_WTSR_SMPL_CNTL = 0xC6"
| "sample_max77802_reg MAX77802_RTC_SEC = 0xC7"
| "sample_max77802_reg MAX77802_RTC_MIN = 0xC8"
| "sample_max77802_reg MAX77802_RTC_HOUR = 0xC9"
| "sample_max77802_reg MAX77802_RTC_WEEKDAY = 0xCA"
| "sample_max77802_reg MAX77802_RTC_MONTH = 0xCB"
| "sample_max77802_reg MAX77802_RTC_YEAR = 0xCC"
| "sample_max77802_reg MAX77802_RTC_MONTHDAY = 0xCD"
| "sample_max77802_reg MAX77802_RTC_AE1 = 0xCE"
| "sample_max77802_reg MAX77802_ALARM1_SEC = 0xCF"
| "sample_max77802_reg MAX77802_ALARM1_MIN = 0xD0"
| "sample_max77802_reg MAX77802_ALARM1_HOUR = 0xD1"
| "sample_max77802_reg MAX77802_ALARM1_WEEKDAY = 0xD2"
| "sample_max77802_reg MAX77802_ALARM1_MONTH = 0xD3"
| "sample_max77802_reg MAX77802_ALARM1_YEAR = 0xD4"
| "sample_max77802_reg MAX77802_ALARM1_DATE = 0xD5"
| "sample_max77802_reg MAX77802_ALARM2_SEC = 0xD6"
| "sample_max77802_reg MAX77802_ALARM2_MIN = 0xD7"
| "sample_max77802_reg MAX77802_ALARM2_HOUR = 0xD8"
| "sample_max77802_reg MAX77802_ALARM2_WEEKDAY = 0xD9"
| "sample_max77802_reg MAX77802_ALARM2_MONTH = 0xDA"
| "sample_max77802_reg MAX77802_ALARM2_YEAR = 0xDB"
| "sample_max77802_reg MAX77802_ALARM2_DATE = 0xDC"

definition sample_h :: private_h where
  "sample_h = \<lparr> max77686_reg = sample_max77686_reg, max77802_reg = sample_max77802_reg,
                MAX77686_REG_STATUS2 = 0x06 \<rparr>"

text \<open>A MAX77686 with its RTC behind a regmap of its own, and a MAX77802 with one regmap.\<close>
definition sample_max77686 :: max77686_rtc_info where
  "sample_max77686 = \<lparr> regmap = 0, rtc_regmap = 1, drv_data = max77686_drv_data sample_h \<rparr>"

definition sample_max77802 :: max77686_rtc_info where
  "sample_max77802 = \<lparr> regmap = 0, rtc_regmap = 0, drv_data = max77802_drv_data sample_h \<rparr>"

text \<open>Tuesday 3 November 2026, 10:15:30, and the same moment in 1999.\<close>
definition sample_tm :: rtc_time where
  "sample_tm = \<lparr> tm_sec = 30, tm_min = 15, tm_hour = 10, tm_mday = 3, tm_mon = 10,
                 tm_year = 126, tm_wday = 2, tm_yday = 0, tm_isdst = 0 \<rparr>"

definition sample_tm_1999 :: rtc_time where
  "sample_tm_1999 = sample_tm\<lparr> tm_year := 99 \<rparr>"

definition sample_alrm :: rtc_wkalrm where
  "sample_alrm = \<lparr> enabled = 1, pending = 0, time = sample_tm \<rparr>"

text \<open>
  A world whose registers all hold 0 but for the time registers of the sample MAX77686,
  which hold \<open>sample_tm\<close>; every bus transaction succeeds.
\<close>
definition sample_regs :: "regmap_ptr \<Rightarrow> uint32 \<Rightarrow> u8" where
  "sample_regs = (\<lambda>rm r. 0)
     (1 := (\<lambda>r. 0)(0x07 := 30, 0x08 := 15, 0x09 := 10, 0x0A := 4, 0x0B := 11,
                    0x0C := 26, 0x0D := 3))"

definition sample_world :: world where
  "sample_world = \<lparr> regs = sample_regs, script = [], trace = [] \<rparr>"

text \<open>The same world with a bus on which the first transaction fails with errno 5.\<close>
definition sample_world_eio :: world where
  "sample_world_eio = sample_world\<lparr> script := [5] \<rparr>"

section \<open>The devicetree fragment for the iPhone 6s\<close>

text \<open>
  The devicetree source as data: a node has a name, properties and child nodes. A
  property's value is a string, a list of cells, or nothing (a flag). A cell is a
  reference to a label, a number, or a macro of the \<^verbatim>\<open>dt-bindings\<close> headers, kept by
  name.
\<close>
datatype dt_cell = Ref string | Num nat | Macro string

datatype dt_value = Str string | Cells "dt_cell list" | Flag

datatype dt_node = Node string "(string \<times> dt_value) list" "dt_node list"

fun node_name :: "dt_node \<Rightarrow> string" where
  "node_name (Node n ps cs) = n"

fun props :: "dt_node \<Rightarrow> (string \<times> dt_value) list" where
  "props (Node n ps cs) = ps"

fun children :: "dt_node \<Rightarrow> dt_node list" where
  "children (Node n ps cs) = cs"

definition get_prop :: "string \<Rightarrow> dt_node \<Rightarrow> dt_value option" where
  "get_prop k nd = map_of (props nd) k"

definition get_child :: "string \<Rightarrow> dt_node \<Rightarrow> dt_node option" where
  "get_child n nd = find (\<lambda>c. node_name c = n) (children nd)"

text \<open>The root node \<^verbatim>\<open>/ { ... }\<close> of the fragment.\<close>
definition iphone6s_common_root :: dt_node where
  "iphone6s_common_root =
    Node ''/'' [(''chassis-type'', Str ''handset'')]
     [Node ''gpio-keys'' [(''compatible'', Str ''gpio-keys'')]
       [Node ''button-home''
          [(''label'', Str ''Home Button''),
           (''gpios'', Cells [Ref ''pinctrl_ap'', Num 96, Macro ''GPIO_ACTIVE_LOW'']),
           (''linux,code'', Cells [Macro ''KEY_HOMEPAGE'']),
           (''wakeup-source'', Flag)] [],
        Node ''button-power''
          [(''label'', Str ''Power Button''),
           (''gpios'', Cells [Ref ''pinctrl_ap'', Num 97, Macro ''GPIO_ACTIVE_LOW'']),
           (''linux,code'', Cells [Macro ''KEY_POWER'']),
           (''wakeup-source'', Flag)] [],
        Node ''button-voldown''
          [(''label'', Str ''Volume Down''),
           (''gpios'', Cells [Ref ''pinctrl_ap'', Num 67, Macro ''GPIO_ACTIVE_LOW'']),
           (''linux,code'', Cells [Macro ''KEY_VOLUMEDOWN''])] [],
        Node ''button-volup''
          [(''label'', Str ''Volume Up''),
           (''gpios'', Cells [Ref ''pinctrl_ap'', Num 66, Macro ''GPIO_ACTIVE_LOW'']),
           (''linux,code'', Cells [Macro ''KEY_VOLUMEUP''])] [],
        Node ''switch-mute''
          [(''label'', Str ''Mute Switch''),
           (''gpios'', Cells [Ref ''pinctrl_ap'', Num 149, Macro ''GPIO_ACTIVE_LOW'']),
           (''linux,code'', Cells [Macro ''KEY_MUTE''])] []]]"

text \<open>The override \<^verbatim>\<open>&framebuffer0 { ... }\<close> of the fragment.\<close>
definition framebuffer0 :: dt_node where
  "framebuffer0 =
    Node ''&framebuffer0''
      [(''power-domains'', Cells [Ref ''ps_disp0'', Ref ''ps_mipi_dsi''])] []"

text \<open>The buttons: the child nodes of \<^verbatim>\<open>gpio-keys\<close>.\<close>
definition gpio_keys :: "dt_node list" where
  "gpio_keys = (case get_child ''gpio-keys'' iphone6s_common_root of
                  None \<Rightarrow> [] | Some nd \<Rightarrow> children nd)"

definition label :: "dt_node \<Rightarrow> string" where
  "label nd = (case get_prop ''label'' nd of Some (Str l) \<Rightarrow> l | _ \<Rightarrow> [])"

text \<open>The third cell of \<^verbatim>\<open>gpios\<close> is the flag \<^verbatim>\<open>GPIO_ACTIVE_LOW\<close>.\<close>
definition active_low_gpio :: "dt_node \<Rightarrow> bool" where
  "active_low_gpio nd =
    (case get_prop ''gpios'' nd of
       Some (Cells [Ref c, Num n, Macro f]) \<Rightarrow> f = ''GPIO_ACTIVE_LOW''
     | _ \<Rightarrow> False)"

definition has_input_code :: "dt_node \<Rightarrow> bool" where
  "has_input_code nd =
    (case get_prop ''linux,code'' nd of Some (Cells [Macro k]) \<Rightarrow> True | _ \<Rightarrow> False)"

definition wakeup_source :: "dt_node \<Rightarrow> bool" where
  "wakeup_source nd = (get_prop ''wakeup-source'' nd = Some Flag)"

section \<open>Properties of the time encoding and of the tables\<close>

subsection \<open>Bits of small numbers\<close>

lemma uint_and_low:
  fixes x :: int
  assumes "0 \<le> x" "x < 2 ^ n" "n \<le> 8"
  shows "uint ((word_of_int x :: u8) AND mask n) = x"
proof -
  have "uint ((word_of_int x :: u8) AND mask n) = take_bit n (take_bit 8 x)"
    by (simp add: uint_and uint_word_of_int_eq uint_mask_eq min_def and.commute
        flip: take_bit_eq_mask)
  also have "\<dots> = take_bit n x"
    using assms by (simp add: min_def)
  also have "\<dots> = x"
    using assms by (simp add: take_bit_int_eq_self)
  finally show ?thesis .
qed

lemma mask_7f: "(0x7f :: u8) = mask 7"
  by (simp add: mask_eq_exp_minus_1)

lemma mask_1f: "(0x1f :: u8) = mask 5"
  by (simp add: mask_eq_exp_minus_1)

lemma mask_0f: "(0x0f :: u8) = mask 4"
  by (simp add: mask_eq_exp_minus_1)

lemma mask_ff: "(0xff :: u8) = mask 8"
  by (simp add: mask_eq_exp_minus_1)

lemma ffs_wday:
  assumes "0 \<le> d" "d \<le> 6" "m = 0x7f \<or> m = 0xff"
  shows "ffs ((word_of_int (push_bit (nat d) 1) :: u8) AND m) - 1 = d"
proof -
  have v: "ffs 1 = 1" "ffs 2 = 2" "ffs 4 = 3" "ffs 8 = 4" "ffs 16 = 5" "ffs 32 = 6"
    "ffs 64 = 7"
    by (code_simp+)
  from assms have "d \<in> {0, 1, 2, 3, 4, 5, 6}"
    by auto
  then show ?thesis
    using assms(3) by (auto simp: v)
qed

lemmas data_idx = RTC_SEC_def RTC_MIN_def RTC_HOUR_def RTC_WEEKDAY_def RTC_MONTH_def
  RTC_YEAR_def RTC_MONTHDAY_def RTC_NR_TIME_def

subsection \<open>Encoding a time and decoding it again\<close>

text \<open>
  C4. Let the configuration be one of the four tables of the driver and let the fields
  of \<open>tm\<close> be in range: seconds and minutes 0 to 59, hour 0 to 23, weekday 0 to 6, day
  of the month 1 to 31, month 0 to 11, and the year 100 to 199 on a model without an
  alarm-enable register, 0 to 127 on the MAX77802. Then \<^verbatim>\<open>max77686_rtc_tm_to_data\<close>
  returns 0, and \<^verbatim>\<open>max77686_rtc_data_to_tm\<close> applied to the seven bytes it has
  produced gives back the same second, minute, hour, weekday, day, month and year,
  whatever the structure it writes into held before.
\<close>
theorem tm_roundtrip:
  assumes model: "drv_data info \<in> set (models h)"
    and sec: "0 \<le> tm_sec tm" "tm_sec tm \<le> 59"
    and minute: "0 \<le> tm_min tm" "tm_min tm \<le> 59"
    and hour: "0 \<le> tm_hour tm" "tm_hour tm \<le> 23"
    and wday: "0 \<le> tm_wday tm" "tm_wday tm \<le> 6"
    and mday: "1 \<le> tm_mday tm" "tm_mday tm \<le> 31"
    and mon: "0 \<le> tm_mon tm" "tm_mon tm \<le> 11"
    and year: "if alarm_enable_reg (drv_data info)
               then 0 \<le> tm_year tm \<and> tm_year tm \<le> 127
               else 100 \<le> tm_year tm \<and> tm_year tm \<le> 199"
  shows "fst (max77686_rtc_tm_to_data tm info) = 0 \<and>
    (let tm' = max77686_rtc_data_to_tm (snd (max77686_rtc_tm_to_data tm info)) tm0 info
     in tm_sec tm' = tm_sec tm \<and> tm_min tm' = tm_min tm \<and> tm_hour tm' = tm_hour tm \<and>
        tm_wday tm' = tm_wday tm \<and> tm_mday tm' = tm_mday tm \<and> tm_mon tm' = tm_mon tm \<and>
        tm_year tm' = tm_year tm)"
proof -
  have cfg: "(\<not> alarm_enable_reg (drv_data info) \<and> reg_mask (drv_data info) = mask 7) \<or>
             (alarm_enable_reg (drv_data info) \<and> reg_mask (drv_data info) = mask 8)"
    using model
    by (auto simp: models_def max77686_drv_data_def max77802_drv_data_def
        max77620_drv_data_def max77714_drv_data_def mask_7f mask_ff)
  have s: "uint ((word_of_int (tm_sec tm) :: u8) AND mask 7) = tm_sec tm"
    "uint ((word_of_int (tm_sec tm) :: u8) AND mask 8) = tm_sec tm"
    using sec by (auto intro!: uint_and_low)
  have mi: "uint ((word_of_int (tm_min tm) :: u8) AND mask 7) = tm_min tm"
    "uint ((word_of_int (tm_min tm) :: u8) AND mask 8) = tm_min tm"
    using minute by (auto intro!: uint_and_low)
  have h: "uint ((word_of_int (tm_hour tm) :: u8) AND mask 5) = tm_hour tm"
    using hour by (auto intro!: uint_and_low)
  have md: "uint ((word_of_int (tm_mday tm) :: u8) AND mask 5) = tm_mday tm"
    using mday by (auto intro!: uint_and_low)
  have mo: "uint ((word_of_int (tm_mon tm + 1) :: u8) AND mask 4) = tm_mon tm + 1"
    using mon uint_and_low [of "tm_mon tm + 1" 4] by simp
  have wd:
    "ffs ((word_of_int (push_bit (nat (tm_wday tm)) 1) :: u8) AND mask 7) - 1 = tm_wday tm"
    "ffs ((word_of_int (push_bit (nat (tm_wday tm)) 1) :: u8) AND mask 8) - 1 = tm_wday tm"
    using wday ffs_wday [of "tm_wday tm" "0x7f"] ffs_wday [of "tm_wday tm" "0xff"]
    by (simp_all add: mask_7f mask_ff)
  from cfg show ?thesis
  proof
    assume c: "\<not> alarm_enable_reg (drv_data info) \<and> reg_mask (drv_data info) = mask 7"
    with year have y: "100 \<le> tm_year tm" "tm_year tm \<le> 199"
      by auto
    have yr: "uint ((word_of_int (if tm_year tm > 100 then tm_year tm - 100 else 0) :: u8)
        AND mask 7) = tm_year tm - 100"
      using y uint_and_low [of "tm_year tm - 100" 7]
      by (cases "tm_year tm > 100") simp_all
    show ?thesis
      using c y s mi h md mo wd yr
      by (simp add: max77686_rtc_tm_to_data_def max77686_rtc_data_to_tm_def Let_def
          data_idx mask_1f mask_0f)
  next
    assume c: "alarm_enable_reg (drv_data info) \<and> reg_mask (drv_data info) = mask 8"
    with year have y: "0 \<le> tm_year tm" "tm_year tm \<le> 127"
      by auto
    have yr: "uint ((word_of_int (tm_year tm) :: u8) AND mask 8) = tm_year tm"
      using y by (auto intro!: uint_and_low)
    show ?thesis
      using c y s mi h md mo wd yr
      by (simp add: max77686_rtc_tm_to_data_def max77686_rtc_data_to_tm_def Let_def
          data_idx mask_1f mask_0f)
  qed
qed

text \<open>
  The round trip at the sample time, on the sample MAX77686 and on the sample MAX77802:
  decoding into a structure that held another time gives the sample time back.
\<close>
theorem tm_roundtrip_witness:
  "drv_data sample_max77686 \<in> set (models sample_h) \<and>
   drv_data sample_max77802 \<in> set (models sample_h) \<and>
   \<not> alarm_enable_reg (drv_data sample_max77686) \<and>
   alarm_enable_reg (drv_data sample_max77802) \<and>
   0 \<le> tm_sec sample_tm \<and> tm_sec sample_tm \<le> 59 \<and>
   0 \<le> tm_min sample_tm \<and> tm_min sample_tm \<le> 59 \<and>
   0 \<le> tm_hour sample_tm \<and> tm_hour sample_tm \<le> 23 \<and>
   0 \<le> tm_wday sample_tm \<and> tm_wday sample_tm \<le> 6 \<and>
   1 \<le> tm_mday sample_tm \<and> tm_mday sample_tm \<le> 31 \<and>
   0 \<le> tm_mon sample_tm \<and> tm_mon sample_tm \<le> 11 \<and>
   100 \<le> tm_year sample_tm \<and> tm_year sample_tm \<le> 127 \<and>
   fst (max77686_rtc_tm_to_data sample_tm sample_max77686) = 0 \<and>
   max77686_rtc_data_to_tm (snd (max77686_rtc_tm_to_data sample_tm sample_max77686))
     sample_tm_1999 sample_max77686 = sample_tm \<and>
   fst (max77686_rtc_tm_to_data sample_tm sample_max77802) = 0 \<and>
   max77686_rtc_data_to_tm (snd (max77686_rtc_tm_to_data sample_tm sample_max77802))
     sample_tm_1999 sample_max77802 = sample_tm"
  using tm_roundtrip [of sample_max77686 sample_h sample_tm sample_tm_1999]
    tm_roundtrip [of sample_max77802 sample_h sample_tm sample_tm_1999]
  by (simp add: models_def sample_max77686_def sample_max77802_def sample_tm_def
      sample_tm_1999_def max77686_drv_data_def max77802_drv_data_def Let_def
      max77686_rtc_data_to_tm_def)

subsection \<open>The offset-to-address maps\<close>

lemma driver_data_class_op: "driver_data (snd (snd (rtc_class_op dev call))) = driver_data dev"
  by (simp add: rtc_class_op_def Let_def split_beta)

lemma driver_data_class_run: "driver_data (rtc_class_run dev calls) = driver_data dev"
  by (induction calls arbitrary: dev) (simp_all add: driver_data_class_op)

lemma rtc_reg_offsets_all: "set rtc_reg_offsets = UNIV"
proof -
  have "off \<in> set rtc_reg_offsets" for off
    by (cases off) (simp_all add: rtc_reg_offsets_def)
  then show ?thesis by blast
qed

text \<open>
  C7. The two maps are fixed tables. Read in the order of the offsets, the MAX77686 map
  is the list of the MAX77686 registers of the same names, from
  \<^verbatim>\<open>MAX77686_RTC_CONTROLM\<close> for \<^verbatim>\<open>REG_RTC_CONTROLM\<close> to \<^verbatim>\<open>MAX77686_ALARM2_DATE\<close>
  for \<^verbatim>\<open>REG_ALARM2_DATE\<close>, followed by the sentinel \<^verbatim>\<open>REG_RTC_NONE\<close> for
  \<^verbatim>\<open>REG_RTC_AE1\<close>; the MAX77802 map is the list of the MAX77802 registers of the same
  names, with \<^verbatim>\<open>MAX77802_RTC_AE1\<close> for \<^verbatim>\<open>REG_RTC_AE1\<close>. The offsets listed are all
  the offsets there are, each once, \<^verbatim>\<open>REG_RTC_END\<close> in number, and
  \<^verbatim>\<open>REG_RTC_AE1\<close> is the last. So every offset before \<^verbatim>\<open>REG_RTC_AE1\<close> is given the
  address of a register of its chip by both maps. The four device tables carry these
  two maps and no other. No operation modifies them: after any sequence of class
  operations on an instance, the driver data of the instance, and with it the map the
  next operation looks its registers up in, is what it was before.
\<close>
theorem register_maps:
  "map (max77686_map h) rtc_reg_offsets =
     map (max77686_reg h)
       [MAX77686_RTC_CONTROLM, MAX77686_RTC_CONTROL, MAX77686_RTC_UPDATE0,
        MAX77686_WTSR_SMPL_CNTL,
        MAX77686_RTC_SEC, MAX77686_RTC_MIN, MAX77686_RTC_HOUR, MAX77686_RTC_WEEKDAY,
        MAX77686_RTC_MONTH, MAX77686_RTC_YEAR, MAX77686_RTC_MONTHDAY,
        MAX77686_ALARM1_SEC, MAX77686_ALARM1_MIN, MAX77686_ALARM1_HOUR,
        MAX77686_ALARM1_WEEKDAY, MAX77686_ALARM1_MONTH, MAX77686_ALARM1_YEAR,
        MAX77686_ALARM1_DATE,
        MAX77686_ALARM2_SEC, MAX77686_ALARM2_MIN, MAX77686_ALARM2_HOUR,
        MAX77686_ALARM2_WEEKDAY, MAX77686_ALARM2_MONTH, MAX77686_ALARM2_YEAR,
        MAX77686_ALARM2_DATE] @ [REG_RTC_NONE] \<and>
   map (max77802_map h) rtc_reg_offsets =
     map (max77802_reg h)
       [MAX77802_RTC_CONTROLM, MAX77802_RTC_CONTROL, MAX77802_RTC_UPDATE0,
        MAX77802_WTSR_SMPL_CNTL,
        MAX77802_RTC_SEC, MAX77802_RTC_MIN, MAX77802_RTC_HOUR, MAX77802_RTC_WEEKDAY,
        MAX77802_RTC_MONTH, MAX77802_RTC_YEAR, MAX77802_RTC_MONTHDAY,
        MAX77802_ALARM1_SEC, MAX77802_ALARM1_MIN, MAX77802_ALARM1_HOUR,
        MAX77802_ALARM1_WEEKDAY, MAX77802_ALARM1_MONTH, MAX77802_ALARM1_YEAR,
        MAX77802_ALARM1_DATE,
        MAX77802_ALARM2_SEC, MAX77802_ALARM2_MIN, MAX77802_ALARM2_HOUR,
        MAX77802_ALARM2_WEEKDAY, MAX77802_ALARM2_MONTH, MAX77802_ALARM2_YEAR,
        MAX77802_ALARM2_DATE, MAX77802_RTC_AE1] \<and>
   distinct rtc_reg_offsets \<and> set rtc_reg_offsets = UNIV \<and>
   length rtc_reg_offsets = REG_RTC_END \<and> last rtc_reg_offsets = REG_RTC_AE1 \<and>
   (if off = REG_RTC_AE1
    then max77686_map h off = REG_RTC_NONE \<and>
         max77802_map h off = max77802_reg h MAX77802_RTC_AE1
    else max77686_map h off \<in> range (max77686_reg h) \<and>
         max77802_map h off \<in> range (max77802_reg h)) \<and>
   map reg_map (models h) =
     [max77686_map h, max77802_map h, max77686_map h, max77686_map h] \<and>
   driver_data (rtc_class_run dev calls) = driver_data dev \<and>
   reg_map (drv_data (dev_get_drvdata (rtc_class_run dev calls))) =
     reg_map (drv_data (dev_get_drvdata dev))"
proof -
  have tables: "map (max77686_map h) rtc_reg_offsets =
     map (max77686_reg h)
       [MAX77686_RTC_CONTROLM, MAX77686_RTC_CONTROL, MAX77686_RTC_UPDATE0,
        MAX77686_WTSR_SMPL_CNTL,
        MAX77686_RTC_SEC, MAX77686_RTC_MIN, MAX77686_RTC_HOUR, MAX77686_RTC_WEEKDAY,
        MAX77686_RTC_MONTH, MAX77686_RTC_YEAR, MAX77686_RTC_MONTHDAY,
        MAX77686_ALARM1_SEC, MAX77686_ALARM1_MIN, MAX77686_ALARM1_HOUR,
        MAX77686_ALARM1_WEEKDAY, MAX77686_ALARM1_MONTH, MAX77686_ALARM1_YEAR,
        MAX77686_ALARM1_DATE,
        MAX77686_ALARM2_SEC, MAX77686_ALARM2_MIN, MAX77686_ALARM2_HOUR,
        MAX77686_ALARM2_WEEKDAY, MAX77686_ALARM2_MONTH, MAX77686_ALARM2_YEAR,
        MAX77686_ALARM2_DATE] @ [REG_RTC_NONE]"
    "map (max77802_map h) rtc_reg_offsets =
     map (max77802_reg h)
       [MAX77802_RTC_CONTROLM, MAX77802_RTC_CONTROL, MAX77802_RTC_UPDATE0,
        MAX77802_WTSR_SMPL_CNTL,
        MAX77802_RTC_SEC, MAX77802_RTC_MIN, MAX77802_RTC_HOUR, MAX77802_RTC_WEEKDAY,
        MAX77802_RTC_MONTH, MAX77802_RTC_YEAR, MAX77802_RTC_MONTHDAY,
        MAX77802_ALARM1_SEC, MAX77802_ALARM1_MIN, MAX77802_ALARM1_HOUR,
        MAX77802_ALARM1_WEEKDAY, MAX77802_ALARM1_MONTH, MAX77802_ALARM1_YEAR,
        MAX77802_ALARM1_DATE,
        MAX77802_ALARM2_SEC, MAX77802_ALARM2_MIN, MAX77802_ALARM2_HOUR,
        MAX77802_ALARM2_WEEKDAY, MAX77802_ALARM2_MONTH, MAX77802_ALARM2_YEAR,
        MAX77802_ALARM2_DATE, MAX77802_RTC_AE1]"
    by (simp_all add: rtc_reg_offsets_def)
  have enum: "distinct rtc_reg_offsets" "length rtc_reg_offsets = REG_RTC_END"
    "last rtc_reg_offsets = REG_RTC_AE1"
    by (simp_all add: rtc_reg_offsets_def REG_RTC_END_def)
  have entry: "if off = REG_RTC_AE1
    then max77686_map h off = REG_RTC_NONE \<and>
         max77802_map h off = max77802_reg h MAX77802_RTC_AE1
    else max77686_map h off \<in> range (max77686_reg h) \<and>
         max77802_map h off \<in> range (max77802_reg h)"
    by (cases off) simp_all
  have used: "map reg_map (models h) =
     [max77686_map h, max77802_map h, max77686_map h, max77686_map h]"
    by (simp add: models_def max77686_drv_data_def max77802_drv_data_def
        max77620_drv_data_def max77714_drv_data_def)
  have frame: "driver_data (rtc_class_run dev calls) = driver_data dev"
    by (rule driver_data_class_run)
  then have "reg_map (drv_data (dev_get_drvdata (rtc_class_run dev calls))) =
     reg_map (drv_data (dev_get_drvdata dev))"
    by (simp add: dev_get_drvdata_def)
  with tables enum rtc_reg_offsets_all entry used frame show ?thesis
    by (intro conjI)
qed

section \<open>Properties of the RTC operations\<close>

subsection \<open>What a call appends to the trace\<close>

text \<open>
  Each bus transaction appends one event whose return value is 0 or negative, and the
  operations run one after the other as long as they succeed.
\<close>
lemmas env_defs = regmap_update_bits_def regmap_bulk_read_def regmap_bulk_write_def
  regmap_read_def regmap_write_def bus_done_def bus_ret_def reg_store_def mutex_lock_def
  mutex_unlock_def usleep_range_def emitted_def

lemma bus_ret_le0: "bus_ret s \<le> 0"
  by (simp add: bus_ret_def split: list.split)

lemma trace_reg_store [simp]: "trace (reg_store rm r v s) = trace s"
  by (simp add: reg_store_def)

lemma trace_fold_store [simp]:
  "trace (fold (\<lambda>i. reg_store rm (f i) (g i)) js s) = trace s"
  by (induction js arbitrary: s) simp_all

lemma script_reg_store [simp]: "script (reg_store rm r v s) = script s"
  by (simp add: reg_store_def)

lemma script_fold_store [simp]:
  "script (fold (\<lambda>i. reg_store rm (f i) (g i)) js s) = script s"
  by (induction js arbitrary: s) simp_all

lemma trace_bus_done [simp]: "trace (bus_done rm x s) = trace s @ [Bus rm x (bus_ret s)]"
  by (simp add: bus_done_def)

lemma crit_bus: "r \<le> 0 \<Longrightarrow> crit g r [Bus rm x r]"
  by (simp add: crit_def)

lemma crit_append: "list_all quiet e1 \<Longrightarrow> crit g r e2 \<Longrightarrow> crit g r (e1 @ e2)"
  by (auto simp: crit_def butlast_append split: if_splits)

lemma runs_bus:
  "trace s' = trace s @ [Bus rm x (bus_ret s)] \<Longrightarrow> runs g s (bus_ret s) s'"
  unfolding runs_def using crit_bus [OF bus_ret_le0] by blast

lemma runs_update_bits:
  "regmap_update_bits rm reg m v s = (ret, s') \<Longrightarrow> runs g s ret s'"
  by (auto simp: regmap_update_bits_def Let_def split: if_splits intro!: runs_bus)

lemma runs_bulk_read:
  "regmap_bulk_read rm reg n s = (ret, data, s') \<Longrightarrow> runs g s ret s'"
  by (auto simp: regmap_bulk_read_def Let_def split: if_splits intro!: runs_bus)

lemma runs_bulk_write:
  "regmap_bulk_write rm reg data s = (ret, s') \<Longrightarrow> runs g s ret s'"
  by (auto simp: regmap_bulk_write_def Let_def split: if_splits intro!: runs_bus)

lemma runs_read:
  "regmap_read rm reg s = (ret, v, s') \<Longrightarrow> runs g s ret s'"
  by (auto simp: regmap_read_def Let_def split: if_splits intro!: runs_bus)

lemma runs_write:
  "regmap_write rm reg v s = (ret, s') \<Longrightarrow> runs g s ret s'"
  by (auto simp: regmap_write_def Let_def split: if_splits intro!: runs_bus)

lemma runs_seq:
  assumes "runs g1 s r1 s1" "\<not> r1 < 0" "runs g s1 r2 s2"
  shows "runs g s r2 s2"
proof -
  from assms(1,2) obtain e1 where e1: "trace s1 = trace s @ e1" "list_all quiet e1"
    by (auto simp: runs_def crit_def)
  from assms(3) obtain e2 where e2: "trace s2 = trace s1 @ e2" "crit g r2 e2"
    by (auto simp: runs_def)
  from e1 e2 have "trace s2 = trace s @ (e1 @ e2)" "crit g r2 (e1 @ e2)"
    by (simp_all add: crit_append)
  then show ?thesis unfolding runs_def by blast
qed

lemma runs_sleep:
  assumes "runs g s r s1" "\<not> r < 0"
  shows "runs g s r (usleep_range lo hi s1)"
proof -
  from assms obtain e1 where e1: "trace s1 = trace s @ e1" "list_all quiet e1"
    by (auto simp: runs_def crit_def)
  then have "trace (usleep_range lo hi s1) = trace s @ (e1 @ [Usleep_range lo hi])"
    "crit g r (e1 @ [Usleep_range lo hi])"
    using assms(2) by (simp_all add: usleep_range_def crit_def)
  then show ?thesis unfolding runs_def by blast
qed

lemma runs_einval:
  assumes "runs g1 s r1 s1" "\<not> r1 < 0" "g"
  shows "runs g s (- EINVAL) s1"
  using assms by (auto simp: runs_def crit_def)

lemma runs_ok:
  assumes "runs g1 s r s1" "\<not> r < 0"
  shows "runs g s r s1"
  using assms by (auto simp: runs_def crit_def)

lemma runs_update:
  "max77686_rtc_update info op s = (ret, s') \<Longrightarrow> runs g s ret s'"
  by (auto simp: max77686_rtc_update_def Let_def split: prod.splits if_splits
      intro: runs_update_bits runs_sleep)

lemmas runs_prims = runs_update runs_write runs_read runs_bulk_read runs_bulk_write

lemma runs_stop_alarm:
  assumes "max77686_rtc_stop_alarm info s = (ret, s')"
  shows "runs (ae1_missing info) s ret s'"
  using assms
  apply (simp add: max77686_rtc_stop_alarm_def Let_def ae1_missing_def
      split: prod.splits if_splits)
  by (blast intro: runs_prims runs_seq runs_einval)+

lemma runs_start_alarm:
  assumes "max77686_rtc_start_alarm info s = (ret, s')"
  shows "runs g s ret s'"
  using assms
  apply (simp add: max77686_rtc_start_alarm_def Let_def
      split: prod.splits if_splits)
  by (blast intro: runs_prims runs_seq)+


subsection \<open>The shape of a class operation's trace\<close>

lemma emitted_same [simp]: "emitted s s = []"
  by (simp add: emitted_def)

lemma emitted_append: "trace s' = trace s @ evs \<Longrightarrow> emitted s s' = evs"
  by (simp add: emitted_def)

lemma class_from_runs:
  assumes "runs g (mutex_lock s) ret s1"
  shows "class_trace yg g ret (emitted s (mutex_unlock s1))"
proof -
  from assms obtain evs where evs: "trace s1 = trace (mutex_lock s) @ evs" "crit g ret evs"
    by (auto simp: runs_def)
  then have "trace (mutex_unlock s1) = trace s @ (Mutex_lock # evs @ [Mutex_unlock])"
    by (simp add: mutex_lock_def mutex_unlock_def)
  then have "emitted s (mutex_unlock s1) = Mutex_lock # evs @ [Mutex_unlock]"
    by (rule emitted_append)
  with evs(2) show ?thesis
    by (simp add: class_trace_def)
qed

lemma tm_to_data_ret:
  "max77686_rtc_tm_to_data tm info = (ret, data) \<Longrightarrow>
   (if \<not> alarm_enable_reg (drv_data info) \<and> tm_year tm < 100 then ret = - EINVAL else ret = 0)"
  by (auto simp: max77686_rtc_tm_to_data_def Let_def split: if_splits)

lemma class_read_time:
  "max77686_rtc_read_time info tm s = (ret, tm', s') \<Longrightarrow> class_trace yg g ret (emitted s s')"
  apply (clarsimp simp: max77686_rtc_read_time_def Let_def split: prod.splits if_splits)
  by (blast intro: class_from_runs runs_prims runs_seq)+

lemma class_set_time:
  "max77686_rtc_set_time info tm s = (ret, s') \<Longrightarrow>
   class_trace (\<not> alarm_enable_reg (drv_data info) \<and> tm_year tm < 100) g ret (emitted s s')"
  apply (clarsimp simp: max77686_rtc_set_time_def Let_def split: prod.splits if_splits)
   apply (drule tm_to_data_ret)
   apply (simp add: class_trace_def EINVAL_def split: if_splits)
  by (blast intro: class_from_runs runs_prims runs_seq)+

lemma class_read_alarm_pending:
  assumes "max77686_rtc_read_alarm_pending info r0 alrm s0 = (ret, alrm', s')"
    and "runs g0 (mutex_lock s) r0 s0" "\<not> r0 < 0"
  shows "class_trace yg g ret (emitted s s')"
  using assms
  apply (clarsimp simp: max77686_rtc_read_alarm_pending_def Let_def
      split: prod.splits if_splits)
  by (blast intro: class_from_runs runs_prims runs_seq runs_ok)+

lemma class_read_alarm:
  "max77686_rtc_read_alarm info alrm s = (ret, alrm', s') \<Longrightarrow>
   class_trace yg (ae1_missing info) ret (emitted s s')"
  apply (clarsimp simp: max77686_rtc_read_alarm_def Let_def ae1_missing_def
      split: prod.splits if_splits)
  by (blast intro: class_from_runs runs_prims runs_seq runs_einval
      class_read_alarm_pending)+

lemma class_set_alarm:
  "max77686_rtc_set_alarm info alrm s = (ret, s') \<Longrightarrow>
   class_trace (\<not> alarm_enable_reg (drv_data info) \<and> tm_year (time alrm) < 100)
     (ae1_missing info) ret (emitted s s')"
  apply (clarsimp simp: max77686_rtc_set_alarm_def Let_def split: prod.splits if_splits)
   apply (drule tm_to_data_ret)
   apply (simp add: class_trace_def EINVAL_def split: if_splits)
  by (blast intro: class_from_runs runs_prims runs_seq runs_stop_alarm runs_start_alarm)+

lemma class_alarm_irq_enable:
  "max77686_rtc_alarm_irq_enable info en s = (ret, s') \<Longrightarrow>
   class_trace yg (ae1_missing info \<and> en = 0) ret (emitted s s')"
  apply (clarsimp simp: max77686_rtc_alarm_irq_enable_def Let_def
      split: prod.splits if_splits)
  by (blast intro: class_from_runs runs_stop_alarm runs_start_alarm)+

lemma class_ops:
  "max77686_rtc_ops info call s = (ret, out, s') \<Longrightarrow>
   class_trace (year_guard info call) (ae1_guard info call) ret (emitted s s')"
  by (cases call)
    (auto simp: year_guard_def ae1_guard_def split: prod.splits
      dest: class_read_time class_set_time class_read_alarm class_set_alarm
        class_alarm_irq_enable)


subsection \<open>What the shape implies\<close>

lemma failed_withE:
  assumes "failed_with ret e"
  obtains rm x where "e = Bus rm x ret" "ret < 0"
  using assms by (cases e) auto

lemma mutex_run_quiet:
  "list_all quiet evs \<Longrightarrow> mutex_run True (evs @ rest) = mutex_run True rest"
proof (induction evs)
  case Nil
  then show ?case by simp
next
  case (Cons e evs)
  then show ?case by (cases e) simp_all
qed

lemma bus_failures_quiet:
  "list_all quiet evs \<Longrightarrow> bus_failures (evs @ rest) = bus_failures rest"
proof (induction evs)
  case Nil
  then show ?case by simp
next
  case (Cons e evs)
  then show ?case by (cases e) simp_all
qed

lemma fail_stop_quiet:
  "list_all quiet evs \<Longrightarrow> fail_stop ret (evs @ rest) = fail_stop ret rest"
proof (induction evs)
  case Nil
  then show ?case by simp
next
  case (Cons e evs)
  then show ?case by (cases e) simp_all
qed

lemma crit_cases:
  assumes "crit g ret evs"
  obtains (ok) "\<not> ret < 0" "list_all quiet evs"
  | (bus) pre rm x where "ret < 0" "evs = pre @ [Bus rm x ret]" "list_all quiet pre"
  | (own) "g" "ret = - EINVAL" "list_all quiet evs"
proof (cases "ret < 0")
  case False
  with assms show ?thesis by (auto simp: crit_def intro: ok)
next
  case True
  with assms consider "evs \<noteq> []" "list_all quiet (butlast evs)" "failed_with ret (last evs)"
    | "g" "ret = - EINVAL" "list_all quiet evs"
    by (auto simp: crit_def)
  then show ?thesis
  proof cases
    case 1
    from 1(3) obtain rm x where "last evs = Bus rm x ret"
      by (rule failed_withE)
    with 1(1) have "evs = butlast evs @ [Bus rm x ret]"
      by (metis append_butlast_last_id)
    from True this 1(2) show ?thesis by (rule bus)
  next
    case 2
    then show ?thesis by (rule own)
  qed
qed

lemma class_trace_cases:
  assumes "class_trace yg g ret evs"
  obtains (early) "evs = []" "yg" "ret = - EINVAL"
  | (locked) body where "evs = Mutex_lock # body @ [Mutex_unlock]" "crit g ret body"
proof (cases evs)
  case Nil
  with assms show ?thesis by (auto simp: class_trace_def intro: early)
next
  case (Cons e es)
  with assms have "e = Mutex_lock" "es \<noteq> []" "last es = Mutex_unlock" "crit g ret (butlast es)"
    by (auto simp: class_trace_def)
  moreover from this have "es = butlast es @ [Mutex_unlock]"
    by (metis append_butlast_last_id)
  ultimately show ?thesis using Cons by (auto intro: locked)
qed

lemma class_trace_mutex:
  assumes "class_trace yg g ret evs"
  shows "mutex_run False evs = Some False"
  using assms
proof (cases rule: class_trace_cases)
  case early
  then show ?thesis by simp
next
  case (locked body)
  from locked(2) show ?thesis
  proof (cases rule: crit_cases)
    case ok
    then show ?thesis using locked(1) by (simp add: mutex_run_quiet)
  next
    case (bus pre rm x)
    then show ?thesis using locked(1) by (simp add: mutex_run_quiet)
  next
    case own
    then show ?thesis using locked(1) by (simp add: mutex_run_quiet)
  qed
qed

lemma class_trace_fail_stop:
  assumes "class_trace yg g ret evs"
  shows "fail_stop ret evs"
  using assms
proof (cases rule: class_trace_cases)
  case early
  then show ?thesis by simp
next
  case (locked body)
  from locked(2) show ?thesis
  proof (cases rule: crit_cases)
    case ok
    then show ?thesis using locked(1) by (simp add: fail_stop_quiet)
  next
    case (bus pre rm x)
    then show ?thesis using locked(1) by (simp add: fail_stop_quiet)
  next
    case own
    then show ?thesis using locked(1) by (simp add: fail_stop_quiet)
  qed
qed

lemma class_trace_failures:
  assumes "class_trace yg g ret evs"
  shows "if ret < 0
         then bus_failures evs = [ret] \<or>
              (bus_failures evs = [] \<and> ret = - EINVAL \<and> (yg \<or> g))
         else bus_failures evs = []"
  using assms
proof (cases rule: class_trace_cases)
  case early
  then show ?thesis by (simp add: EINVAL_def)
next
  case (locked body)
  from locked(2) show ?thesis
  proof (cases rule: crit_cases)
    case ok
    then show ?thesis using locked(1) by (simp add: bus_failures_quiet)
  next
    case (bus pre rm x)
    then show ?thesis using locked(1) by (simp add: bus_failures_quiet)
  next
    case own
    then show ?thesis using locked(1) by (simp add: bus_failures_quiet EINVAL_def)
  qed
qed


subsection \<open>Locking\<close>

lemma mutex_run_held_step:
  "e \<noteq> Mutex_lock \<Longrightarrow> e \<noteq> Mutex_unlock \<Longrightarrow> mutex_run True (e # es) = mutex_run True es"
  by (cases e) simp_all

lemma mutex_run_append:
  "mutex_run h e1 = Some h' \<Longrightarrow> mutex_run h (e1 @ e2) = mutex_run h' e2"
proof (induction e1 arbitrary: h)
  case Nil
  then show ?case by simp
next
  case (Cons e e1)
  then show ?case by (cases e) (auto split: if_splits)
qed

lemma append_in_shuffles: "xs @ ys \<in> shuffles xs ys"
  by (induction xs) (simp_all add: Cons_in_shuffles_leftI)

lemma shuffle_while_held:
  assumes "list_all (\<lambda>e. e \<noteq> Mutex_lock \<and> e \<noteq> Mutex_unlock) b"
    and "m \<in> shuffles (b @ [Mutex_unlock]) (Mutex_lock # r)"
    and "mutex_run True m \<noteq> None"
  shows "m = b @ Mutex_unlock # Mutex_lock # r"
  using assms
proof (induction b arbitrary: m)
  case Nil
  then obtain z zs where m: "m = z # zs"
    by (cases m) auto
  with Nil show ?case
    by (auto simp: Cons_in_shuffles_iff)
next
  case (Cons e b)
  then obtain z zs where m: "m = z # zs"
    by (cases m) auto
  with Cons.prems have "z = e \<and> zs \<in> shuffles (b @ [Mutex_unlock]) (Mutex_lock # r)"
    by (auto simp: Cons_in_shuffles_iff)
  moreover from this Cons.prems m have "mutex_run True zs \<noteq> None"
    by (simp add: mutex_run_held_step)
  ultimately show ?case
    using Cons.IH [of zs] Cons.prems(1) m by simp
qed

lemma class_trace_bracket:
  assumes "class_trace yg g ret evs"
  obtains "evs = []"
  | body where "evs = Mutex_lock # body @ [Mutex_unlock]"
      "list_all (\<lambda>e. e \<noteq> Mutex_lock \<and> e \<noteq> Mutex_unlock) body"
  using assms
proof (cases rule: class_trace_cases)
  case early
  then show ?thesis using that(1) by simp
next
  case (locked body)
  have q: "list_all (\<lambda>e. e \<noteq> Mutex_lock \<and> e \<noteq> Mutex_unlock) b" if "list_all quiet b" for b
    using that by (induction b) auto
  from locked(2) have "list_all (\<lambda>e. e \<noteq> Mutex_lock \<and> e \<noteq> Mutex_unlock) body"
    by (cases rule: crit_cases) (auto simp: q)
  with locked(1) show ?thesis by (rule that(2))
qed

lemma serial:
  assumes c1: "class_trace yg1 g1 ret1 e1" and c2: "class_trace yg2 g2 ret2 e2"
    and m: "m \<in> shuffles e1 e2" and run: "mutex_run False m \<noteq> None"
  shows "m = e1 @ e2 \<or> m = e2 @ e1"
  using c1
proof (cases rule: class_trace_bracket)
  case 1
  with m show ?thesis by simp
next
  case (2 b1)
  note e1 = 2
  from c2 show ?thesis
  proof (cases rule: class_trace_bracket)
    case 1
    with m show ?thesis by simp
  next
    case (2 b2)
    from m e1(1) 2(1) obtain zs where zs: "m = Mutex_lock # zs"
      "zs \<in> shuffles (b1 @ [Mutex_unlock]) (Mutex_lock # b2 @ [Mutex_unlock]) \<or>
       zs \<in> shuffles (b2 @ [Mutex_unlock]) (Mutex_lock # b1 @ [Mutex_unlock])"
      by (cases m) (auto simp: Cons_in_shuffles_iff shuffles_commutes)
    with run have held: "mutex_run True zs \<noteq> None"
      by simp
    from zs(2) show ?thesis
    proof
      assume "zs \<in> shuffles (b1 @ [Mutex_unlock]) (Mutex_lock # b2 @ [Mutex_unlock])"
      from shuffle_while_held [OF e1(2) this held] zs(1) e1(1) 2(1) show ?thesis
        by simp
    next
      assume "zs \<in> shuffles (b2 @ [Mutex_unlock]) (Mutex_lock # b1 @ [Mutex_unlock])"
      from shuffle_while_held [OF 2(2) this held] zs(1) e1(1) 2(1) show ?thesis
        by simp
    qed
  qed
qed


text \<open>
  C3. Replayed against a free mutex, what any of the five class operations appends to
  the trace takes the mutex before its first bus transaction, performs every bus
  transaction while holding it, never takes it twice, and has released it when the
  operation returns: the replay succeeds and ends with the mutex free. Hence the
  operations on one instance are serialised: when the events of two class operations
  are interleaved in any way the mutex admits (it is only taken while free), the result
  is all events of one operation followed by all events of the other.
\<close>
theorem class_ops_hold_mutex:
  "mutex_run False (emitted s (snd (snd (max77686_rtc_ops info call s)))) = Some False \<and>
   (m \<in> shuffles (emitted s (snd (snd (max77686_rtc_ops info call s))))
          (emitted s2 (snd (snd (max77686_rtc_ops info call2 s2)))) \<and>
    mutex_run False m \<noteq> None \<longrightarrow>
    m = emitted s (snd (snd (max77686_rtc_ops info call s))) @
        emitted s2 (snd (snd (max77686_rtc_ops info call2 s2))) \<or>
    m = emitted s2 (snd (snd (max77686_rtc_ops info call2 s2))) @
        emitted s (snd (snd (max77686_rtc_ops info call s))))"
proof -
  obtain ret out s' where r: "max77686_rtc_ops info call s = (ret, out, s')"
    by (cases "max77686_rtc_ops info call s") auto
  obtain ret2 out2 s2' where r2: "max77686_rtc_ops info call2 s2 = (ret2, out2, s2')"
    by (cases "max77686_rtc_ops info call2 s2") auto
  note c = class_ops [OF r] and c2 = class_ops [OF r2]
  from class_trace_mutex [OF c] serial [OF c c2, of m] r r2 show ?thesis
    by auto
qed

text \<open>
  Reading the time and setting the time on the sample MAX77686: the ten events of
  \<^verbatim>\<open>set_time\<close> followed by \<^verbatim>\<open>read_time\<close> are an interleaving the mutex admits.
\<close>
theorem class_ops_hold_mutex_witness:
  "(let e1 = emitted sample_world
               (snd (snd (max77686_rtc_ops sample_max77686 (Read_time sample_tm_1999)
                  sample_world)));
        e2 = emitted sample_world
               (snd (snd (max77686_rtc_ops sample_max77686 (Set_time sample_tm)
                  sample_world)));
        m = [Mutex_lock, Bus 1 (Bulk_write 0x07 [30, 15, 10, 4, 11, 26, 3]) 0,
             Bus 1 (Update_bits 0x04 0x01 0x01) 0, Usleep_range 16000 32000, Mutex_unlock,
             Mutex_lock, Bus 1 (Update_bits 0x04 0x10 0x10) 0, Usleep_range 16000 32000,
             Bus 1 (Bulk_read 0x07 7 [30, 15, 10, 4, 11, 26, 3]) 0, Mutex_unlock]
    in m \<in> shuffles e1 e2 \<and> mutex_run False m = Some False \<and> m = e2 @ e1)"
proof -
  let ?e1 = "emitted sample_world
      (snd (snd (max77686_rtc_ops sample_max77686 (Read_time sample_tm_1999) sample_world)))"
  let ?e2 = "emitted sample_world
      (snd (snd (max77686_rtc_ops sample_max77686 (Set_time sample_tm) sample_world)))"
  let ?m = "[Mutex_lock, Bus 1 (Bulk_write 0x07 [30, 15, 10, 4, 11, 26, 3]) 0,
             Bus 1 (Update_bits 0x04 0x01 0x01) 0, Usleep_range 16000 32000, Mutex_unlock,
             Mutex_lock, Bus 1 (Update_bits 0x04 0x10 0x10) 0, Usleep_range 16000 32000,
             Bus 1 (Bulk_read 0x07 7 [30, 15, 10, 4, 11, 26, 3]) 0, Mutex_unlock]"
  have e1: "?e1 = [Mutex_lock, Bus 1 (Update_bits 0x04 0x10 0x10) 0, Usleep_range 16000 32000,
      Bus 1 (Bulk_read 0x07 7 [30, 15, 10, 4, 11, 26, 3]) 0, Mutex_unlock]"
    by (simp add: max77686_rtc_read_time_def max77686_rtc_update_def env_defs Let_def
      RTC_RBUDR_SHIFT_def sample_max77686_def max77686_drv_data_def sample_world_def
      sample_regs_def sample_h_def data_idx upt_rec [of _ "numeral _"] upt_rec [of _ "Suc _"])
  have d: "max77686_rtc_tm_to_data sample_tm sample_max77686 =
      (0, [30, 15, 10, 4, 11, 26, 3])"
    by (simp add: max77686_rtc_tm_to_data_def Let_def sample_max77686_def
        max77686_drv_data_def sample_tm_def data_idx eval_nat_numeral)
  have e2: "?e2 = [Mutex_lock, Bus 1 (Bulk_write 0x07 [30, 15, 10, 4, 11, 26, 3]) 0,
      Bus 1 (Update_bits 0x04 0x01 0x01) 0, Usleep_range 16000 32000, Mutex_unlock]"
    apply (simp add: max77686_rtc_set_time_def d)
    by (simp add:
      max77686_rtc_update_def regmap_update_bits_def regmap_bulk_write_def bus_done_def
      bus_ret_def mutex_lock_def mutex_unlock_def usleep_range_def emitted_def Let_def
      RTC_UDR_SHIFT_def sample_max77686_def max77686_drv_data_def sample_world_def
      sample_tm_def sample_h_def data_idx)
  have m: "?m = ?e2 @ ?e1"
    by (simp only: e1 e2 append.simps)
  have sh: "?m \<in> shuffles ?e1 ?e2"
    unfolding m by (simp only: shuffles_commutes [of ?e1 ?e2] append_in_shuffles)
  have run: "mutex_run False ?m = Some False"
    by simp
  from class_ops_hold_mutex [of sample_world sample_max77686 "Read_time sample_tm_1999"
      ?m sample_world "Set_time sample_tm"] sh run m
  show ?thesis
    unfolding Let_def by blast
qed

subsection \<open>Failures of the bus\<close>

text \<open>
  C5. In each of the five class operations a failed bus transaction is followed by the
  release of the mutex and by nothing else, and the operation returns that
  transaction's return value. So no transaction is attempted again, and at most one
  transaction fails in one operation.
\<close>
theorem class_ops_never_retry:
  "fail_stop (fst (max77686_rtc_ops info call s))
     (emitted s (snd (snd (max77686_rtc_ops info call s)))) \<and>
   length (bus_failures (emitted s (snd (snd (max77686_rtc_ops info call s))))) \<le> 1"
proof -
  obtain ret out s' where r: "max77686_rtc_ops info call s = (ret, out, s')"
    by (cases "max77686_rtc_ops info call s") auto
  then have c: "class_trace (year_guard info call) (ae1_guard info call) ret (emitted s s')"
    by (rule class_ops)
  then have "fail_stop ret (emitted s s')"
    by (rule class_trace_fail_stop)
  moreover from class_trace_failures [OF c] have "length (bus_failures (emitted s s')) \<le> 1"
    by (auto split: if_splits)
  ultimately show ?thesis using r by simp
qed

text \<open>
  \<^verbatim>\<open>set_alarm\<close> on the sample MAX77686 when the third transaction fails with errno 13:
  the failed bulk write is followed by the release of the mutex only, and -13 is
  returned.
\<close>
theorem class_ops_never_retry_witness:
  "fst (max77686_rtc_ops sample_max77686 (Set_alarm sample_alrm)
          (sample_world\<lparr> script := [0, 0, 13] \<rparr>)) = - 13 \<and>
   emitted (sample_world\<lparr> script := [0, 0, 13] \<rparr>)
     (snd (snd (max77686_rtc_ops sample_max77686 (Set_alarm sample_alrm)
        (sample_world\<lparr> script := [0, 0, 13] \<rparr>)))) =
     [Mutex_lock, Bus 1 (Update_bits 0x04 0x10 0x10) 0, Usleep_range 16000 32000,
      Bus 1 (Bulk_read 0x0E 7 [0, 0, 0, 0, 0, 0, 0]) 0,
      Bus 1 (Bulk_write 0x0E [0, 0, 0, 0, 0, 0, 0]) (- 13), Mutex_unlock]"
proof -
  have d: "max77686_rtc_tm_to_data (time sample_alrm) sample_max77686 =
      (0, [30, 15, 10, 4, 11, 26, 3])"
    by (simp add: max77686_rtc_tm_to_data_def Let_def sample_max77686_def sample_alrm_def
        max77686_drv_data_def sample_tm_def data_idx eval_nat_numeral)
  show ?thesis
    using class_ops_never_retry [of sample_max77686 "Set_alarm sample_alrm"
        "sample_world\<lparr> script := [0, 0, 13] \<rparr>"]
    apply (simp add: max77686_rtc_set_alarm_def d)
    by (simp add: max77686_rtc_stop_alarm_def max77686_rtc_update_def env_defs Let_def
        RTC_RBUDR_SHIFT_def sample_max77686_def max77686_drv_data_def
        sample_world_def sample_regs_def sample_h_def data_idx
        upt_rec [of _ "numeral _"] upt_rec [of _ "Suc _"])
qed

text \<open>
  C1, as amended. A negative return value of a class operation is either the unchanged
  return value of the one bus transaction that failed in it, or it is the driver's own
  \<^verbatim>\<open>-EINVAL\<close> with no failed transaction at all: from the year check (\<^verbatim>\<open>set_time\<close> or
  \<^verbatim>\<open>set_alarm\<close> with \<open>tm_year < 100\<close> on a model without an alarm-enable register) or
  from the check for the alarm-enable register (\<^verbatim>\<open>read_alarm\<close>, \<^verbatim>\<open>set_alarm\<close> or
  \<^verbatim>\<open>alarm_irq_enable(0)\<close> on a model that has \<^verbatim>\<open>alarm_enable_reg\<close> set and
  \<^verbatim>\<open>REG_RTC_NONE\<close> in its map). An operation that does not return a negative value has
  had no failed transaction.
\<close>
theorem class_ops_error_codes:
  "(let (ret, out, s') = max77686_rtc_ops info call s
    in if ret < 0
       then bus_failures (emitted s s') = [ret] \<or>
            (bus_failures (emitted s s') = [] \<and> ret = - EINVAL \<and>
             (year_guard info call \<or> ae1_guard info call))
       else bus_failures (emitted s s') = [])"
proof -
  obtain ret out s' where r: "max77686_rtc_ops info call s = (ret, out, s')"
    by (cases "max77686_rtc_ops info call s") auto
  then have c: "class_trace (year_guard info call) (ae1_guard info call) ret (emitted s s')"
    by (rule class_ops)
  from class_trace_failures [OF c] r show ?thesis
    by simp
qed

text \<open>
  On a bus whose first transaction fails with errno 5, \<^verbatim>\<open>read_time\<close> on the sample
  MAX77686 returns -5 after that one transaction.
\<close>
theorem class_ops_error_codes_witness:
  "fst (max77686_rtc_ops sample_max77686 (Read_time sample_tm_1999) sample_world_eio) = - 5 \<and>
   emitted sample_world_eio
     (snd (snd (max77686_rtc_ops sample_max77686 (Read_time sample_tm_1999)
        sample_world_eio))) =
     [Mutex_lock, Bus 1 (Update_bits 0x04 0x10 0x10) (- 5), Mutex_unlock] \<and>
   bus_failures (emitted sample_world_eio
     (snd (snd (max77686_rtc_ops sample_max77686 (Read_time sample_tm_1999)
        sample_world_eio)))) = [- 5]"
  using class_ops_error_codes [of sample_max77686 "Read_time sample_tm_1999" sample_world_eio]
  by (simp add: max77686_rtc_read_time_def max77686_rtc_update_def env_defs Let_def
      RTC_RBUDR_SHIFT_def sample_max77686_def max77686_drv_data_def sample_world_eio_def
      sample_world_def sample_h_def)

text \<open>
  C1 as stated fails: \<^verbatim>\<open>set_time\<close> of a time in 1999 on the sample MAX77686 returns
  \<^verbatim>\<open>-EINVAL\<close> (-22) although the bus is never used, so no transaction has failed.
\<close>
theorem set_time_own_einval:
  "max77686_rtc_ops sample_max77686 (Set_time sample_tm_1999) sample_world =
     (- 22, Out_none, sample_world) \<and>
   bus_failures (emitted sample_world sample_world) = []"
  by (simp add: max77686_rtc_set_time_def max77686_rtc_tm_to_data_def Let_def
      sample_max77686_def max77686_drv_data_def sample_tm_1999_def sample_tm_def EINVAL_def)

subsection \<open>The year check\<close>

text \<open>
  C9. On a model without an alarm-enable register, \<^verbatim>\<open>set_time\<close> and \<^verbatim>\<open>set_alarm\<close>
  called with a year below 100 return \<^verbatim>\<open>-EINVAL\<close> and leave the world as it was:
  the mutex is not taken, no bus transaction is made and no register changes.
\<close>
theorem year_check_before_lock:
  assumes "\<not> alarm_enable_reg (drv_data info)"
    and "tm_year tm < 100"
    and "tm_year (time alrm) < 100"
  shows "max77686_rtc_set_time info tm s = (- EINVAL, s) \<and>
         max77686_rtc_set_alarm info alrm s = (- EINVAL, s)"
  using assms
  by (simp add: max77686_rtc_set_time_def max77686_rtc_set_alarm_def
      max77686_rtc_tm_to_data_def Let_def EINVAL_def)

text \<open>The year check at the sample time of 1999 on the sample MAX77686.\<close>
theorem year_check_before_lock_witness:
  "\<not> alarm_enable_reg (drv_data sample_max77686) \<and>
   tm_year sample_tm_1999 < 100 \<and>
   tm_year (time (sample_alrm\<lparr> time := sample_tm_1999 \<rparr>)) < 100 \<and>
   max77686_rtc_set_time sample_max77686 sample_tm_1999 sample_world =
     (- EINVAL, sample_world) \<and>
   max77686_rtc_set_alarm sample_max77686 (sample_alrm\<lparr> time := sample_tm_1999 \<rparr>)
     sample_world = (- EINVAL, sample_world)"
  using year_check_before_lock [of sample_max77686 sample_tm_1999
      "sample_alrm\<lparr> time := sample_tm_1999 \<rparr>" sample_world]
  by (simp add: sample_max77686_def max77686_drv_data_def sample_tm_1999_def sample_tm_def)

subsection \<open>The update commit\<close>

lemma or_replace_bits: "(old AND NOT m) OR (m AND m) = old OR (m :: 'a::len word)"
  by (rule bit_eqI) (auto simp: bit_simps)

lemma set_bit0: "(w :: u8) AND - 2 OR 1 = w OR 1"
  using or_replace_bits [of w 1] by simp

lemma set_bit4: "(w :: u8) AND - 17 OR 16 = w OR 16"
  using or_replace_bits [of w 16] by simp

text \<open>
  C2. \<^verbatim>\<open>max77686_rtc_update\<close>, through which every commit goes, makes one
  read-modify-write of the update register: \<^verbatim>\<open>regmap_update_bits\<close> with mask and
  value both bit 0 (UDR) for a write and both bit 4 (RBUDR) for a read. When that
  transaction fails, nothing follows and no register has changed. When it succeeds, the
  register has the bit set and its other bits as before, and exactly one call
  \<^verbatim>\<open>usleep_range(delay, 2 * delay)\<close> follows, with the \<^verbatim>\<open>delay\<close> of the model:
  16000 microseconds on the MAX77686, MAX77620 and MAX77714, 200 on the MAX77802.
\<close>
theorem rtc_update_commit:
  "(let rm = rtc_regmap info;
        reg = reg_map (drv_data info) REG_RTC_UPDATE0;
        d = delay (drv_data info);
        b = (if op = MAX77686_RTC_WRITE then 0x01 else 0x10);
        (ret, s') = max77686_rtc_update info op s
    in emitted s s' =
         Bus rm (Update_bits reg b b) ret #
           (if ret < 0 then [] else [Usleep_range d (2 * d)]) \<and>
       regs s' =
         (if ret < 0 then regs s
          else (regs s)(rm := (regs s rm)(reg := regs s rm reg OR ucast b)))) \<and>
   map delay (models h) = [16000, 200, 16000, 16000]"
  by (simp add: max77686_rtc_update_def env_defs Let_def set_bit0 set_bit4 models_def
      max77686_drv_data_def max77802_drv_data_def max77620_drv_data_def max77714_drv_data_def
      RTC_UDR_SHIFT_def RTC_RBUDR_SHIFT_def split: list.splits)

subsection \<open>Reading the time\<close>

text \<open>
  C6. A call of \<^verbatim>\<open>read_time\<close> that does not fail has done exactly this, in this
  order: taken the mutex, set RBUDR in the update register, slept, read the seven time
  registers in one bulk transaction, released the mutex. The seven bytes of that
  transaction are what the registers hold when the call returns, and the time returned
  is \<^verbatim>\<open>max77686_rtc_data_to_tm\<close> of exactly these bytes: nothing is taken from an
  earlier call.
\<close>
theorem read_time_reads_device:
  assumes "max77686_rtc_read_time info tm s = (ret, tm', s')"
    and "0 \<le> ret"
  shows "(let rm = rtc_regmap info;
              upd = reg_map (drv_data info) REG_RTC_UPDATE0;
              sec = reg_map (drv_data info) REG_RTC_SEC;
              d = delay (drv_data info);
              data = map (\<lambda>i. regs s' rm (sec + of_nat i)) [0..<RTC_NR_TIME]
          in emitted s s' =
               [Mutex_lock, Bus rm (Update_bits upd 0x10 0x10) 0, Usleep_range d (2 * d),
                Bus rm (Bulk_read sec RTC_NR_TIME data) 0, Mutex_unlock] \<and>
             tm' = max77686_rtc_data_to_tm data tm info)"
  using assms
  by (auto simp: max77686_rtc_read_time_def max77686_rtc_update_def env_defs Let_def
      RTC_RBUDR_SHIFT_def set_bit4 split: list.splits if_splits)


text \<open>
  Reading the time on the sample MAX77686 into a structure that held a time of 1999:
  the call returns 0 and the sample time, after the five events.
\<close>
theorem read_time_reads_device_witness:
  "fst (max77686_rtc_read_time sample_max77686 sample_tm_1999 sample_world) = 0 \<and>
   fst (snd (max77686_rtc_read_time sample_max77686 sample_tm_1999 sample_world)) =
     sample_tm \<and>
   emitted sample_world
     (snd (snd (max77686_rtc_read_time sample_max77686 sample_tm_1999 sample_world))) =
     [Mutex_lock, Bus 1 (Update_bits 0x04 0x10 0x10) 0, Usleep_range 16000 32000,
      Bus 1 (Bulk_read 0x07 7 [30, 15, 10, 4, 11, 26, 3]) 0, Mutex_unlock]"
  using read_time_reads_device [of sample_max77686 sample_tm_1999 sample_world
      "fst (max77686_rtc_read_time sample_max77686 sample_tm_1999 sample_world)"
      "fst (snd (max77686_rtc_read_time sample_max77686 sample_tm_1999 sample_world))"
      "snd (snd (max77686_rtc_read_time sample_max77686 sample_tm_1999 sample_world))"]
  by (simp add: max77686_rtc_read_time_def max77686_rtc_update_def env_defs Let_def
      RTC_RBUDR_SHIFT_def sample_max77686_def max77686_drv_data_def sample_world_def
      sample_regs_def sample_tm_1999_def sample_tm_def max77686_rtc_data_to_tm_def
      sample_h_def data_idx ffs_def upt_rec [of _ "numeral _"] upt_rec [of _ "Suc _"])

subsection \<open>The alarm-enable bit\<close>

lemma bit7_update:
  assumes "max77686_rtc_update info op s = (ret, s')"
  shows "bit (regs s' rm r) 7 = bit (regs s rm r) 7"
  using assms
  by (auto simp: max77686_rtc_update_def env_defs Let_def RTC_UDR_SHIFT_def
      RTC_RBUDR_SHIFT_def set_bit0 set_bit4 bit_simps split: list.splits if_splits)

lemma regs_bulk_read:
  assumes "regmap_bulk_read rm reg n s = (ret, data, s')"
  shows "regs s' = regs s"
    and "\<not> ret < 0 \<Longrightarrow> data = map (\<lambda>i. regs s rm (reg + of_nat i)) [0..<n]"
  using assms by (auto simp: env_defs Let_def split: if_splits)

lemma regs_read:
  assumes "regmap_read rm reg s = (ret, v, s')"
  shows "regs s' = regs s"
  using assms by (auto simp: env_defs Let_def split: if_splits)

lemma regs_mutex [simp]:
  "regs (mutex_lock s) = regs s" "regs (mutex_unlock s) = regs s"
  by (simp_all add: mutex_lock_def mutex_unlock_def)

lemma regs_reg_store:
  "regs (reg_store rm r v s) rm' r' = (if rm' = rm \<and> r' = r then v else regs s rm' r')"
  by (simp add: reg_store_def)

lemma reg_offset_inj:
  fixes reg :: uint32
  assumes "i < 2 ^ 32" "j < 2 ^ 32"
  shows "(reg + of_nat i = reg + of_nat j) = (i = j)"
  using assms by (simp add: word_of_nat_eq_iff take_bit_nat_eq_self)

lemma of_nat_inj32:
  assumes "i < 2 ^ 32" "j < 2 ^ 32"
  shows "((of_nat i :: uint32) = of_nat j) = (i = j)"
  using assms by (simp add: word_of_nat_eq_iff take_bit_nat_eq_self)

lemma fold_store_get:
  assumes "j < n" "n \<le> 2 ^ 32"
  shows "regs (fold (\<lambda>i. reg_store rm (reg + of_nat i) (data ! i)) [0..<n] s) rm
           (reg + of_nat j) = data ! j"
  using assms
proof (induction n)
  case 0
  then show ?case by simp
next
  case (Suc n)
  show ?case
  proof (cases "j = n")
    case True
    then show ?thesis by (simp add: regs_reg_store)
  next
    case False
    with Suc.prems have "j < n" "n < 2 ^ 32" "j < 2 ^ 32"
      by simp_all
    with Suc.IH False show ?thesis
      by (simp add: regs_reg_store of_nat_inj32)
  qed
qed

lemma regs_bulk_write:
  assumes "regmap_bulk_write rm reg data s = (ret, s')" "\<not> ret < 0"
    and "j < length data" "length data \<le> 2 ^ 32"
  shows "regs s' rm (reg + of_nat j) = data ! j"
  using assms
  by (auto simp: regmap_bulk_write_def Let_def fold_store_get split: if_splits)

lemma enable_mask_bit: "((b :: u8) AND ALARM_ENABLE_MASK \<noteq> 0) = bit b 7"
  by (simp add: ALARM_ENABLE_MASK_def BIT_def ALARM_ENABLE_SHIFT_def
      bit_iff_and_push_bit_not_eq_0)

lemma stop_alarm_clears:
  assumes nae: "\<not> alarm_enable_reg (drv_data info)"
    and run: "max77686_rtc_stop_alarm info s = (ret, s')"
    and ok: "0 \<le> ret"
    and i: "i < RTC_NR_TIME"
  shows "\<not> bit (regs s' (rtc_regmap info)
           (reg_map (drv_data info) REG_ALARM1_SEC + of_nat i)) 7"
proof -
  let ?rm = "rtc_regmap info" and ?base = "reg_map (drv_data info) REG_ALARM1_SEC"
  obtain r1 s1 where u1: "max77686_rtc_update info MAX77686_RTC_READ s = (r1, s1)"
    by force
  obtain r2 data s2 where br: "regmap_bulk_read ?rm ?base RTC_NR_TIME s1 = (r2, data, s2)"
    by (metis prod_cases3)
  let ?d = "map (\<lambda>b. b AND NOT ALARM_ENABLE_MASK) data"
  obtain r3 s3 where bw: "regmap_bulk_write ?rm ?base ?d s2 = (r3, s3)"
    by force
  from nae run ok u1 br bw
  have oks: "\<not> r1 < 0" "\<not> r2 < 0" "\<not> r3 < 0"
    and u2: "max77686_rtc_update info MAX77686_RTC_WRITE s3 = (ret, s')"
    by (auto simp: max77686_rtc_stop_alarm_def Let_def split: if_splits)
  from regs_bulk_read(2) [OF br oks(2)] have len: "length data = RTC_NR_TIME"
    by simp
  with i have "regs s3 ?rm (?base + of_nat i) = ?d ! i"
    using regs_bulk_write [OF bw oks(3), of i] by (simp add: RTC_NR_TIME_def)
  with len i have "\<not> bit (regs s3 ?rm (?base + of_nat i)) 7"
    by (simp add: ALARM_ENABLE_MASK_def BIT_def ALARM_ENABLE_SHIFT_def bit_simps)
  with bit7_update [OF u2] show ?thesis
    by simp
qed


lemma start_alarm_tail:
  assumes "regmap_bulk_write rm base d s2 = (r3, s3)"
    and "max77686_rtc_update info MAX77686_RTC_WRITE s3 = (ret, s')"
    and "\<not> r3 < 0" "length d = RTC_NR_TIME" "bit (d ! RTC_SEC) 7"
  shows "bit (regs s' rm base) 7"
proof -
  have "regs s3 rm (base + of_nat 0) = d ! 0"
    using regs_bulk_write [OF assms(1,3), of 0] assms(4) by (simp add: RTC_NR_TIME_def)
  with assms(5) have "bit (regs s3 rm base) 7"
    by (simp add: RTC_SEC_def)
  with bit7_update [OF assms(2)] show ?thesis
    by simp
qed

lemma start_alarm_sets:
  assumes nae: "\<not> alarm_enable_reg (drv_data info)"
    and run: "max77686_rtc_start_alarm info s = (ret, s')"
    and ok: "0 \<le> ret"
  shows "bit (regs s' (rtc_regmap info) (reg_map (drv_data info) REG_ALARM1_SEC)) 7"
proof -
  let ?rm = "rtc_regmap info" and ?base = "reg_map (drv_data info) REG_ALARM1_SEC"
  obtain r1 s1 where u1: "max77686_rtc_update info MAX77686_RTC_READ s = (r1, s1)"
    by force
  obtain r2 data s2 where br: "regmap_bulk_read ?rm ?base RTC_NR_TIME s1 = (r2, data, s2)"
    by (metis prod_cases3)
  from nae run ok u1 br have oks: "\<not> r1 < 0" "\<not> r2 < 0"
    by (auto simp: max77686_rtc_start_alarm_def Let_def split: if_splits)
  from regs_bulk_read(2) [OF br oks(2)] have len: "length data = RTC_NR_TIME"
    by simp
  from nae run ok u1 br oks len show ?thesis
    by (auto simp: max77686_rtc_start_alarm_def Let_def data_idx ALARM_ENABLE_SHIFT_def
        bit_simps split: if_splits prod.splits elim!: start_alarm_tail)
qed

lemma read_alarm_pending_props:
  assumes "max77686_rtc_read_alarm_pending info r a s = (ret, a', s')"
  shows "enabled a' = enabled a" "regs s' = regs s" "\<exists>evs. trace s' = trace s @ evs"
  using assms
  by (auto simp: max77686_rtc_read_alarm_pending_def env_defs Let_def
      split: if_splits list.splits)

lemma regs_update_bulk_read:
  assumes "regmap_bulk_read rm reg n s = (ret, data, s')"
  shows "trace s' = trace s @ [Bus rm (Bulk_read reg n data) ret]" "ret \<le> 0"
  using assms by (auto simp: regmap_bulk_read_def Let_def bus_ret_le0)

lemma read_alarm_enabled:
  assumes nae: "\<not> alarm_enable_reg (drv_data info)"
    and run: "max77686_rtc_read_alarm info alrm s = (ret, alrm', s')"
    and ok: "0 \<le> ret"
  shows "(let rm = rtc_regmap info;
              base = reg_map (drv_data info) REG_ALARM1_SEC;
              data = map (\<lambda>i. regs s' rm (base + of_nat i)) [0..<RTC_NR_TIME]
          in Bus rm (Bulk_read base RTC_NR_TIME data) 0 \<in> set (emitted s s') \<and>
             enabled alrm' = (if list_ex (\<lambda>b. bit b 7) data then 1 else 0))"
proof -
  let ?rm = "rtc_regmap info" and ?base = "reg_map (drv_data info) REG_ALARM1_SEC"
  obtain r1 s1
    where u1: "max77686_rtc_update info MAX77686_RTC_READ (mutex_lock s) = (r1, s1)"
    by force
  obtain r2 data s2 where br: "regmap_bulk_read ?rm ?base RTC_NR_TIME s1 = (r2, data, s2)"
    by (metis prod_cases3)
  define a0 where
    "a0 = alrm\<lparr> time := max77686_rtc_data_to_tm data (time alrm) info, enabled := 0 \<rparr>"
  define a1 where
    "a1 = (if list_ex (\<lambda>b. b AND ALARM_ENABLE_MASK \<noteq> 0) (take RTC_NR_TIME data)
           then a0\<lparr> enabled := 1 \<rparr> else a0)"
  from nae run ok u1 br
  have oks: "\<not> r1 < 0" "\<not> r2 < 0"
    and p: "max77686_rtc_read_alarm_pending info r2 a1 s2 = (ret, alrm', s')"
    by (auto simp: max77686_rtc_read_alarm_def Let_def a0_def a1_def split: if_splits)
  note pp = read_alarm_pending_props [OF p]
  from regs_update_bulk_read [OF br] oks(2) have r2: "r2 = 0"
    and t2: "trace s2 = trace s1 @ [Bus ?rm (Bulk_read ?base RTC_NR_TIME data) 0]"
    by simp_all
  from regs_bulk_read [OF br] oks(2) pp(2)
  have data: "data = map (\<lambda>i. regs s' ?rm (?base + of_nat i)) [0..<RTC_NR_TIME]"
    by simp
  from runs_update [OF u1, of False] obtain e1 where "trace s1 = trace (mutex_lock s) @ e1"
    by (auto simp: runs_def)
  moreover from pp(3) obtain e3 where "trace s' = trace s2 @ e3"
    by blast
  ultimately have "trace s' =
      trace s @ (Mutex_lock # e1 @ [Bus ?rm (Bulk_read ?base RTC_NR_TIME data) 0] @ e3)"
    using t2 by (simp add: mutex_lock_def)
  then have "emitted s s' = Mutex_lock # e1 @ [Bus ?rm (Bulk_read ?base RTC_NR_TIME data) 0] @ e3"
    by (rule emitted_append)
  then have ev: "Bus ?rm (Bulk_read ?base RTC_NR_TIME data) 0 \<in> set (emitted s s')"
    by simp
  have len: "length data = RTC_NR_TIME"
    by (subst data) simp
  have "enabled alrm' = enabled a1"
    by (rule pp(1))
  also have "\<dots> = (if list_ex (\<lambda>b. bit b 7) data then 1 else 0)"
    using len by (simp add: a1_def a0_def enable_mask_bit)
  finally have en: "enabled alrm' = (if list_ex (\<lambda>b. bit b 7) data then 1 else 0)" .
  from ev en data show ?thesis
    by (simp add: Let_def)
qed

lemma bit7_read_alarm:
  assumes "max77686_rtc_read_alarm info alrm s = (ret, alrm', s')" "0 \<le> ret"
  shows "bit (regs s' rm r) 7 = bit (regs s rm r) 7"
proof -
  obtain r1 s1
    where u1: "max77686_rtc_update info MAX77686_RTC_READ (mutex_lock s) = (r1, s1)"
    by force
  have "regs s' = regs s1"
    using assms u1
    apply (auto simp: max77686_rtc_read_alarm_def Let_def EINVAL_def
        split: if_splits prod.splits)
    by (metis regs_bulk_read(1) regs_read read_alarm_pending_props(2))+
  with bit7_update [OF u1, of rm r] show ?thesis
    by simp
qed


text \<open>
  C10. On a model without an alarm-enable register:
  \<^item> a \<^verbatim>\<open>read_alarm\<close> that does not fail has read the seven alarm registers in one
    bulk transaction, and reports \<open>enabled = 1\<close> when bit 7 is set in at least one of
    the seven bytes and \<open>enabled = 0\<close> when it is set in none;
  \<^item> after a \<^verbatim>\<open>stop_alarm\<close> that does not fail, bit 7 is clear in all seven alarm
    registers, and a \<^verbatim>\<open>read_alarm\<close> that starts from these registers and does not
    fail reports \<open>enabled = 0\<close>;
  \<^item> after a \<^verbatim>\<open>start_alarm\<close> that does not fail, bit 7 is set in the alarm seconds
    register, and such a \<^verbatim>\<open>read_alarm\<close> reports \<open>enabled = 1\<close>.
\<close>
theorem alarm_enable_bit:
  assumes nae: "\<not> alarm_enable_reg (drv_data info)"
  shows
    "(max77686_rtc_read_alarm info alrm s = (ret, alrm', s') \<and> 0 \<le> ret \<longrightarrow>
        (let rm = rtc_regmap info;
             base = reg_map (drv_data info) REG_ALARM1_SEC;
             data = map (\<lambda>i. regs s' rm (base + of_nat i)) [0..<RTC_NR_TIME]
         in Bus rm (Bulk_read base RTC_NR_TIME data) 0 \<in> set (emitted s s') \<and>
            (enabled alrm' = 1) = list_ex (\<lambda>b. bit b 7) data \<and>
            (enabled alrm' = 0) = (\<not> list_ex (\<lambda>b. bit b 7) data))) \<and>
     (max77686_rtc_stop_alarm info s = (r1, s1) \<and> 0 \<le> r1 \<longrightarrow>
        list_all (\<lambda>i. \<not> bit (regs s1 (rtc_regmap info)
                    (reg_map (drv_data info) REG_ALARM1_SEC + of_nat i)) 7)
          [0..<RTC_NR_TIME] \<and>
        (regs t = regs s1 \<and> max77686_rtc_read_alarm info alrm t = (r2, alrm2, t') \<and>
         0 \<le> r2 \<longrightarrow> enabled alrm2 = 0)) \<and>
     (max77686_rtc_start_alarm info s = (r1, s1) \<and> 0 \<le> r1 \<longrightarrow>
        bit (regs s1 (rtc_regmap info) (reg_map (drv_data info) REG_ALARM1_SEC)) 7 \<and>
        (regs t = regs s1 \<and> max77686_rtc_read_alarm info alrm t = (r2, alrm2, t') \<and>
         0 \<le> r2 \<longrightarrow> enabled alrm2 = 1))"
proof -
  let ?rm = "rtc_regmap info" and ?base = "reg_map (drv_data info) REG_ALARM1_SEC"
  have reported: "enabled a' =
      (if list_ex (\<lambda>i. bit (regs w ?rm (?base + of_nat i)) 7) [0..<RTC_NR_TIME]
       then 1 else 0)"
    if "max77686_rtc_read_alarm info a w = (r, a', w')" "0 \<le> r" for a w r a' w'
    using read_alarm_enabled [OF nae that] bit7_read_alarm [OF that]
    by (simp add: Let_def list_ex_iff)
  have part1: "max77686_rtc_read_alarm info alrm s = (ret, alrm', s') \<and> 0 \<le> ret \<longrightarrow>
        (let rm = rtc_regmap info;
             base = reg_map (drv_data info) REG_ALARM1_SEC;
             data = map (\<lambda>i. regs s' rm (base + of_nat i)) [0..<RTC_NR_TIME]
         in Bus rm (Bulk_read base RTC_NR_TIME data) 0 \<in> set (emitted s s') \<and>
            (enabled alrm' = 1) = list_ex (\<lambda>b. bit b 7) data \<and>
            (enabled alrm' = 0) = (\<not> list_ex (\<lambda>b. bit b 7) data))"
    using read_alarm_enabled [OF nae, of alrm s ret alrm' s']
    by (auto simp: Let_def)
  have part2: "max77686_rtc_stop_alarm info s = (r1, s1) \<and> 0 \<le> r1 \<longrightarrow>
        list_all (\<lambda>i. \<not> bit (regs s1 ?rm (?base + of_nat i)) 7) [0..<RTC_NR_TIME] \<and>
        (regs t = regs s1 \<and> max77686_rtc_read_alarm info alrm t = (r2, alrm2, t') \<and>
         0 \<le> r2 \<longrightarrow> enabled alrm2 = 0)"
  proof (intro impI, elim conjE)
    assume run: "max77686_rtc_stop_alarm info s = (r1, s1)" "0 \<le> r1"
    have clear: "\<not> bit (regs s1 ?rm (?base + of_nat i)) 7" if "i < RTC_NR_TIME" for i
      using stop_alarm_clears [OF nae run that] .
    then have "list_all (\<lambda>i. \<not> bit (regs s1 ?rm (?base + of_nat i)) 7) [0..<RTC_NR_TIME]"
      by (simp add: list_all_iff)
    moreover have "enabled alrm2 = 0"
      if "regs t = regs s1" "max77686_rtc_read_alarm info alrm t = (r2, alrm2, t')" "0 \<le> r2"
      using reported [OF that(2,3)] that(1) clear by (simp add: list_ex_iff)
    ultimately show "list_all (\<lambda>i. \<not> bit (regs s1 ?rm (?base + of_nat i)) 7)
          [0..<RTC_NR_TIME] \<and>
        (regs t = regs s1 \<and> max77686_rtc_read_alarm info alrm t = (r2, alrm2, t') \<and>
         0 \<le> r2 \<longrightarrow> enabled alrm2 = 0)"
      by blast
  qed
  have part3: "max77686_rtc_start_alarm info s = (r1, s1) \<and> 0 \<le> r1 \<longrightarrow>
        bit (regs s1 ?rm ?base) 7 \<and>
        (regs t = regs s1 \<and> max77686_rtc_read_alarm info alrm t = (r2, alrm2, t') \<and>
         0 \<le> r2 \<longrightarrow> enabled alrm2 = 1)"
  proof (intro impI, elim conjE)
    assume run: "max77686_rtc_start_alarm info s = (r1, s1)" "0 \<le> r1"
    have set7: "bit (regs s1 ?rm ?base) 7"
      using start_alarm_sets [OF nae run] .
    moreover have "enabled alrm2 = 1"
      if "regs t = regs s1" "max77686_rtc_read_alarm info alrm t = (r2, alrm2, t')" "0 \<le> r2"
    proof -
      have "list_ex (\<lambda>i. bit (regs t ?rm (?base + of_nat i)) 7) [0..<RTC_NR_TIME]"
        using set7 that(1) by (auto simp: list_ex_iff RTC_NR_TIME_def intro!: bexI [of _ 0])
      with reported [OF that(2,3)] show ?thesis
        by simp
    qed
    ultimately show "bit (regs s1 ?rm ?base) 7 \<and>
        (regs t = regs s1 \<and> max77686_rtc_read_alarm info alrm t = (r2, alrm2, t') \<and>
         0 \<le> r2 \<longrightarrow> enabled alrm2 = 1)"
      by blast
  qed
  from part1 part2 part3 show ?thesis
    by (intro conjI)
qed


text \<open>On a bus whose script is empty every transaction succeeds.\<close>
lemma reliable_prims:
  assumes "script s = []"
  shows "fst (regmap_update_bits rm reg m v s) = 0"
    "script (snd (regmap_update_bits rm reg m v s)) = []"
    "fst (regmap_bulk_read rm reg n s) = 0"
    "script (snd (snd (regmap_bulk_read rm reg n s))) = []"
    "fst (regmap_bulk_write rm reg d s) = 0"
    "script (snd (regmap_bulk_write rm reg d s)) = []"
    "fst (regmap_read rm reg s) = 0"
    "script (snd (snd (regmap_read rm reg s))) = []"
    "script (mutex_lock s) = []"
    "script (mutex_unlock s) = []"
    "script (usleep_range lo hi s) = []"
  using assms
  by (simp_all add: regmap_update_bits_def regmap_bulk_read_def regmap_bulk_write_def
      regmap_read_def bus_done_def bus_ret_def mutex_lock_def mutex_unlock_def
      usleep_range_def Let_def)

lemma reliable_update:
  assumes "script s = []"
  shows "fst (max77686_rtc_update info op s) = 0"
    "script (snd (max77686_rtc_update info op s)) = []"
  using assms by (simp_all add: max77686_rtc_update_def Let_def split_beta reliable_prims)

lemma reliable_stop_alarm:
  assumes "\<not> alarm_enable_reg (drv_data info)" "script s = []"
  shows "fst (max77686_rtc_stop_alarm info s) = 0"
    "script (snd (max77686_rtc_stop_alarm info s)) = []"
  using assms
  by (simp_all add: max77686_rtc_stop_alarm_def Let_def split_beta reliable_prims
      reliable_update)

lemma reliable_start_alarm:
  assumes "\<not> alarm_enable_reg (drv_data info)" "script s = []"
  shows "fst (max77686_rtc_start_alarm info s) = 0"
    "script (snd (max77686_rtc_start_alarm info s)) = []"
  using assms
  by (simp_all add: max77686_rtc_start_alarm_def Let_def split_beta reliable_prims
      reliable_update)

lemma reliable_read_alarm:
  assumes "\<not> alarm_enable_reg (drv_data info)" "script s = []"
  shows "fst (max77686_rtc_read_alarm info alrm s) = 0"
  using assms
  by (simp add: max77686_rtc_read_alarm_def max77686_rtc_read_alarm_pending_def Let_def
      split_beta reliable_prims reliable_update)

text \<open>
  On the sample MAX77686 with a bus that never fails: \<^verbatim>\<open>start_alarm\<close>, then
  \<^verbatim>\<open>read_alarm\<close> reports 1; \<^verbatim>\<open>stop_alarm\<close> after that, then \<^verbatim>\<open>read_alarm\<close> reports 0.
\<close>
theorem alarm_enable_bit_witness:
  "(let on = max77686_rtc_start_alarm sample_max77686 sample_world;
        off = max77686_rtc_stop_alarm sample_max77686 (snd on);
        read_on = max77686_rtc_read_alarm sample_max77686 sample_alrm (snd on);
        read_off = max77686_rtc_read_alarm sample_max77686 sample_alrm (snd off)
    in \<not> alarm_enable_reg (drv_data sample_max77686) \<and>
       fst on = 0 \<and> fst off = 0 \<and> fst read_on = 0 \<and> fst read_off = 0 \<and>
       enabled (fst (snd read_on)) = 1 \<and>
       enabled (fst (snd read_off)) = 0 \<and>
       list_ex (\<lambda>b. bit b 7)
         (map (\<lambda>i. regs (snd (snd read_on)) 1 (0x0E + of_nat i)) [0..<7]))"
proof -
  let ?info = sample_max77686
  let ?on = "max77686_rtc_start_alarm ?info sample_world"
  let ?off = "max77686_rtc_stop_alarm ?info (snd ?on)"
  let ?read_on = "max77686_rtc_read_alarm ?info sample_alrm (snd ?on)"
  let ?read_off = "max77686_rtc_read_alarm ?info sample_alrm (snd ?off)"
  have nae: "\<not> alarm_enable_reg (drv_data ?info)"
    by (simp add: sample_max77686_def max77686_drv_data_def)
  have s0: "script sample_world = []"
    by (simp add: sample_world_def)
  have on: "fst ?on = 0" "script (snd ?on) = []"
    using nae s0 by (simp_all add: reliable_start_alarm)
  have off: "fst ?off = 0" "script (snd ?off) = []"
    using nae on(2) by (simp_all add: reliable_stop_alarm)
  have rd: "fst ?read_on = 0" "fst ?read_off = 0"
    using nae on(2) off(2) by (simp_all add: reliable_read_alarm)
  have base: "reg_map (drv_data ?info) REG_ALARM1_SEC = 0x0E" "rtc_regmap ?info = 1"
    by (simp_all add: sample_max77686_def max77686_drv_data_def sample_h_def)
  have eq: "?on = (fst ?on, snd ?on)" "?off = (fst ?off, snd ?off)"
    "?read_on = (fst ?read_on, fst (snd ?read_on), snd (snd ?read_on))"
    "?read_off = (fst ?read_off, fst (snd ?read_off), snd (snd ?read_off))"
    by simp_all
  have ge: "0 \<le> fst ?on" "0 \<le> fst ?off" "0 \<le> fst ?read_on" "0 \<le> fst ?read_off"
    using on off rd by simp_all
  have en_on: "enabled (fst (snd ?read_on)) = 1"
    using alarm_enable_bit [where info = ?info and s = sample_world and ?r1.0 = "fst ?on"
        and ?s1.0 = "snd ?on" and t = "snd ?on" and alrm = sample_alrm
        and ?r2.0 = "fst ?read_on" and ?alrm2.0 = "fst (snd ?read_on)"
        and t' = "snd (snd ?read_on)", OF nae] eq(1,3) ge(1,3)
    by blast
  have en_off: "enabled (fst (snd ?read_off)) = 0"
    using alarm_enable_bit [where info = ?info and s = "snd ?on" and ?r1.0 = "fst ?off"
        and ?s1.0 = "snd ?off" and t = "snd ?off" and alrm = sample_alrm
        and ?r2.0 = "fst ?read_off" and ?alrm2.0 = "fst (snd ?read_off)"
        and t' = "snd (snd ?read_off)", OF nae] eq(2,4) ge(2,4)
    by blast
  have "(enabled (fst (snd ?read_on)) = 1) =
      list_ex (\<lambda>b. bit b 7)
        (map (\<lambda>i. regs (snd (snd ?read_on)) (rtc_regmap ?info)
                 (reg_map (drv_data ?info) REG_ALARM1_SEC + of_nat i)) [0..<RTC_NR_TIME])"
    using alarm_enable_bit [where info = ?info and alrm = sample_alrm and s = "snd ?on"
        and ret = "fst ?read_on" and alrm' = "fst (snd ?read_on)"
        and s' = "snd (snd ?read_on)", OF nae] eq(3) ge(3)
    unfolding Let_def by blast
  with en_on have ex_on: "list_ex (\<lambda>b. bit b 7)
      (map (\<lambda>i. regs (snd (snd ?read_on)) 1 (0x0E + of_nat i)) [0..<7])"
    by (simp add: base RTC_NR_TIME_def)
  from nae on(1) off(1) rd en_on en_off ex_on show ?thesis
    by (simp add: Let_def)
qed

section \<open>Properties of the devicetree fragment\<close>

text \<open>
  C8. The \<^verbatim>\<open>gpio-keys\<close> node has exactly five child nodes, labelled Home Button, Power
  Button, Volume Down, Volume Up and Mute Switch. Each has an active-low GPIO and a
  Linux input code. The nodes marked \<^verbatim>\<open>wakeup-source\<close> are the Home and the Power
  button and no other. \<^verbatim>\<open>framebuffer0\<close> is given the two power domains
  \<^verbatim>\<open>ps_disp0\<close> and \<^verbatim>\<open>ps_mipi_dsi\<close>.
\<close>
theorem iphone6s_buttons_and_display:
  "map node_name gpio_keys =
     [''button-home'', ''button-power'', ''button-voldown'', ''button-volup'',
      ''switch-mute''] \<and>
   map label gpio_keys =
     [''Home Button'', ''Power Button'', ''Volume Down'', ''Volume Up'', ''Mute Switch''] \<and>
   list_all active_low_gpio gpio_keys \<and>
   list_all has_input_code gpio_keys \<and>
   map label (filter wakeup_source gpio_keys) = [''Home Button'', ''Power Button''] \<and>
   get_prop ''power-domains'' framebuffer0 =
     Some (Cells [Ref ''ps_disp0'', Ref ''ps_mipi_dsi''])"
  by (simp add: gpio_keys_def get_child_def iphone6s_common_root_def label_def get_prop_def
      active_low_gpio_def has_input_code_def wakeup_source_def framebuffer0_def)

end
